theory Spec2Isabelle
  imports
    Main
    "HOL-Library.Word"
    "HOL-Library.List_Lexorder"
    "HOL-Library.Product_Lexorder"
    "HOL-Library.Multiset"
    "HOL-Library.Sublist"
begin

unbundle bit_operations_syntax

section \<open>Strings and bytes\<close>

text \<open>
  A Python \<open>str\<close> is the list of its code points, and so is an SQLite \<open>TEXT\<close> value; a
  \<open>bytes\<close> value is the list of its bytes. The order on strings is the lexicographic
  order of the code points, which is the order of the UTF-8 encodings that SQLite's
  default \<open>BINARY\<close> collation compares. \<open>u\<close> turns an ASCII literal into a string.
\<close>

type_synonym ustr = "nat list"

type_synonym bytes = "nat list"

definition u :: "string \<Rightarrow> ustr" where
  "u s = map of_char s"

text \<open>
  \<open>str.encode("utf-8")\<close>: a surrogate code point cannot be encoded, and the call
  raises \<open>UnicodeEncodeError\<close> (the result \<open>None\<close>).
\<close>

definition utf8_char :: "nat \<Rightarrow> bytes option" where
  "utf8_char c =
     (if c < 0x80 then Some [c]
      else if c < 0x800 then Some [0xC0 + c div 64, 0x80 + c mod 64]
      else if 0xD800 \<le> c \<and> c \<le> 0xDFFF then None
      else if c < 0x10000 then
        Some [0xE0 + c div 4096, 0x80 + c div 64 mod 64, 0x80 + c mod 64]
      else if c < 0x110000 then
        Some [0xF0 + c div 262144, 0x80 + c div 4096 mod 64, 0x80 + c div 64 mod 64,
              0x80 + c mod 64]
      else None)"

fun encode_utf8 :: "ustr \<Rightarrow> bytes option" where
  "encode_utf8 [] = Some []"
| "encode_utf8 (c # cs) =
     (case utf8_char c of
        None \<Rightarrow> None
      | Some b \<Rightarrow> (case encode_utf8 cs of None \<Rightarrow> None | Some bs \<Rightarrow> Some (b @ bs)))"

text \<open>
  The characters \<open>str.strip()\<close> removes, which are those of \<open>str.isspace()\<close>; the ASCII
  digits and the ASCII lower case.
\<close>

definition is_space :: "nat \<Rightarrow> bool" where
  "is_space c =
     ((9 \<le> c \<and> c \<le> 13) \<or> (28 \<le> c \<and> c \<le> 32) \<or> c = 0x85 \<or> c = 0xA0 \<or> c = 0x1680 \<or>
      (0x2000 \<le> c \<and> c \<le> 0x200A) \<or> c = 0x2028 \<or> c = 0x2029 \<or> c = 0x202F \<or>
      c = 0x205F \<or> c = 0x3000)"

definition ascii_digit :: "nat \<Rightarrow> bool" where
  "ascii_digit c = (48 \<le> c \<and> c \<le> 57)"

definition ascii_lower :: "nat \<Rightarrow> nat" where
  "ascii_lower c = (if 65 \<le> c \<and> c \<le> 90 then c + 32 else c)"

definition strip :: "ustr \<Rightarrow> ustr" where
  "strip s = rev (dropWhile is_space (rev (dropWhile is_space s)))"

definition startswith :: "ustr \<Rightarrow> ustr \<Rightarrow> bool" where
  "startswith s p = (take (length p) s = p)"

definition endswith :: "ustr \<Rightarrow> ustr \<Rightarrow> bool" where
  "endswith s p = (length p \<le> length s \<and> drop (length s - length p) s = p)"

definition replace_char :: "nat \<Rightarrow> ustr \<Rightarrow> ustr \<Rightarrow> ustr" where
  "replace_char c new s = concat (map (\<lambda>x. if x = c then new else [x]) s)"

text \<open>\<open>if x:\<close> on an \<open>Optional[str]\<close>: \<open>None\<close> and the empty string are false.\<close>

fun truthy :: "ustr option \<Rightarrow> bool" where
  "truthy None = False"
| "truthy (Some s) = (s \<noteq> [])"

section \<open>HMAC-SHA256 (hmac, hashlib)\<close>

text \<open>
  \<open>hashlib.sha256\<close> after FIPS 180-4 and \<open>hmac.new(key, msg, sha256)\<close> after RFC 2104,
  on lists of bytes; \<open>hexdigest\<close> writes each byte as two lower-case hexadecimal digits.
  \<open>K256\<close> holds the 64 round constants of section 4.2.2 of the standard, in eight rows of
  eight, and \<open>H256\<close> the initial hash value of its section 5.3.3.
\<close>

type_synonym w32 = "32 word"

definition K256 :: "w32 list" where
  "K256 = concat
    [[0x428a2f98, 0x71374491, 0xb5c0fbcf, 0xe9b5dba5, 0x3956c25b, 0x59f111f1, 0x923f82a4, 0xab1c5ed5],
     [0xd807aa98, 0x12835b01, 0x243185be, 0x550c7dc3, 0x72be5d74, 0x80deb1fe, 0x9bdc06a7, 0xc19bf174],
     [0xe49b69c1, 0xefbe4786, 0x0fc19dc6, 0x240ca1cc, 0x2de92c6f, 0x4a7484aa, 0x5cb0a9dc, 0x76f988da],
     [0x983e5152, 0xa831c66d, 0xb00327c8, 0xbf597fc7, 0xc6e00bf3, 0xd5a79147, 0x06ca6351, 0x14292967],
     [0x27b70a85, 0x2e1b2138, 0x4d2c6dfc, 0x53380d13, 0x650a7354, 0x766a0abb, 0x81c2c92e, 0x92722c85],
     [0xa2bfe8a1, 0xa81a664b, 0xc24b8b70, 0xc76c51a3, 0xd192e819, 0xd6990624, 0xf40e3585, 0x106aa070],
     [0x19a4c116, 0x1e376c08, 0x2748774c, 0x34b0bcb5, 0x391c0cb3, 0x4ed8aa4a, 0x5b9cca4f, 0x682e6ff3],
     [0x748f82ee, 0x78a5636f, 0x84c87814, 0x8cc70208, 0x90befffa, 0xa4506ceb, 0xbef9a3f7, 0xc67178f2]]"

type_synonym state256 = "w32 \<times> w32 \<times> w32 \<times> w32 \<times> w32 \<times> w32 \<times> w32 \<times> w32"

definition H256 :: state256 where
  "H256 = (0x6a09e667, 0xbb67ae85, 0x3c6ef372, 0xa54ff53a,
           0x510e527f, 0x9b05688c, 0x1f83d9ab, 0x5be0cd19)"

definition rotr :: "nat \<Rightarrow> w32 \<Rightarrow> w32" where
  "rotr n x = (drop_bit n x) OR (push_bit (32 - n) x)"

definition Ch :: "w32 \<Rightarrow> w32 \<Rightarrow> w32 \<Rightarrow> w32" where
  "Ch x y z = (x AND y) XOR (NOT x AND z)"

definition Maj :: "w32 \<Rightarrow> w32 \<Rightarrow> w32 \<Rightarrow> w32" where
  "Maj x y z = (x AND y) XOR (x AND z) XOR (y AND z)"

definition Sigma0 :: "w32 \<Rightarrow> w32" where "Sigma0 x = rotr 2 x XOR rotr 13 x XOR rotr 22 x"
definition Sigma1 :: "w32 \<Rightarrow> w32" where "Sigma1 x = rotr 6 x XOR rotr 11 x XOR rotr 25 x"
definition sigma0 :: "w32 \<Rightarrow> w32" where "sigma0 x = rotr 7 x XOR rotr 18 x XOR drop_bit 3 x"
definition sigma1 :: "w32 \<Rightarrow> w32" where "sigma1 x = rotr 17 x XOR rotr 19 x XOR drop_bit 10 x"

fun be_words :: "bytes \<Rightarrow> w32 list" where
  "be_words (a # b # c # d # bs) =
     (push_bit 24 (of_nat a) OR push_bit 16 (of_nat b) OR push_bit 8 (of_nat c) OR of_nat d)
       # be_words bs"
| "be_words bs = []"

fun schedule :: "nat \<Rightarrow> w32 list \<Rightarrow> w32 list" where
  "schedule 0 ws = ws"
| "schedule (Suc n) ws =
     schedule n (ws @ [sigma1 (ws ! (length ws - 2)) + ws ! (length ws - 7) +
                       sigma0 (ws ! (length ws - 15)) + ws ! (length ws - 16)])"

fun round256 :: "state256 \<Rightarrow> w32 \<times> w32 \<Rightarrow> state256" where
  "round256 (a, b, c, d, e, f, g, h) (k, w) =
     (let t1 = h + Sigma1 e + Ch e f g + k + w;
          t2 = Sigma0 a + Maj a b c
      in (t1 + t2, a, b, c, d + t1, e, f, g))"

fun add256 :: "state256 \<Rightarrow> state256 \<Rightarrow> state256" where
  "add256 (a, b, c, d, e, f, g, h) (a', b', c', d', e', f', g', h') =
     (a + a', b + b', c + c', d + d', e + e', f + f', g + g', h + h')"

definition compress :: "state256 \<Rightarrow> bytes \<Rightarrow> state256" where
  "compress hs block =
     add256 hs (foldl round256 hs (zip K256 (schedule 48 (be_words block))))"

fun words256 :: "state256 \<Rightarrow> w32 list" where
  "words256 (a, b, c, d, e, f, g, h) = [a, b, c, d, e, f, g, h]"

definition word_bytes :: "w32 \<Rightarrow> bytes" where
  "word_bytes w = map (\<lambda>i. unat (take_bit 8 (drop_bit i w))) [24, 16, 8, 0]"

fun be_bytes :: "nat \<Rightarrow> nat \<Rightarrow> bytes" where
  "be_bytes 0 v = []"
| "be_bytes (Suc n) v = be_bytes n (v div 256) @ [v mod 256]"

definition pad :: "bytes \<Rightarrow> bytes" where
  "pad msg = msg @ [0x80] @ replicate ((119 - length msg mod 64) mod 64) 0 @
             be_bytes 8 (8 * length msg)"

fun blocks :: "nat \<Rightarrow> bytes \<Rightarrow> bytes list" where
  "blocks 0 bs = []"
| "blocks (Suc n) bs = take 64 bs # blocks n (drop 64 bs)"

definition sha256 :: "bytes \<Rightarrow> bytes" where
  "sha256 msg =
     concat (map word_bytes
       (words256 (foldl compress H256 (blocks (length (pad msg) div 64) (pad msg)))))"

definition hex_digit :: "nat \<Rightarrow> nat" where
  "hex_digit n = (if n < 10 then 48 + n else 87 + n)"

definition hexdigest :: "bytes \<Rightarrow> nat list" where
  "hexdigest bs = concat (map (\<lambda>b. [hex_digit (b div 16), hex_digit (b mod 16)]) bs)"

definition hmac_sha256 :: "bytes \<Rightarrow> bytes \<Rightarrow> bytes" where
  "hmac_sha256 key msg =
     (let k0 = (if length key > 64 then sha256 key else key);
          k = k0 @ replicate (64 - length k0) 0;
          ipad = map (\<lambda>b. b XOR 0x36) k;
          opad = map (\<lambda>b. b XOR 0x5c) k
      in sha256 (opad @ sha256 (ipad @ msg)))"

text \<open>
  \<open>compute_signature\<close> of main.py: the secret is encoded first, and a secret that cannot
  be encoded makes the call raise (the result \<open>None\<close>).
\<close>

definition compute_signature :: "ustr \<Rightarrow> bytes \<Rightarrow> ustr option" where
  "compute_signature secret raw_body =
     (case encode_utf8 secret of
        None \<Rightarrow> None
      | Some key \<Rightarrow> Some (hexdigest (hmac_sha256 key raw_body)))"

section \<open>The messages table (models.py, storage.py)\<close>

text \<open>
  One row of the table \<open>messages\<close>; the column \<open>text\<close> is nullable. The table is the list
  of its rows in the order they were inserted. The primary key \<open>message_id\<close> makes the
  ids of a table distinct: \<open>store_inv\<close>.
\<close>

record message =
  message_id :: ustr
  from_msisdn :: ustr
  to_msisdn :: ustr
  ts :: ustr
  msg_text :: "ustr option"
  created_at :: ustr

type_synonym store = "message list"

definition store_inv :: "store \<Rightarrow> bool" where
  "store_inv st = distinct (map message_id st)"

section \<open>Libraries\<close>

text \<open>
  What the code takes from libraries whose tables or versions the repository does not
  fix is a parameter of the model:
  \<^item> \<open>unicode_isdigit c\<close> is \<open>str.isdigit()\<close> and \<open>unicode_decimal c\<close> is the class \<open>\d\<close> of
    \<open>re\<close>, each for a code point from 128 on (below 128 both are the ASCII digits);
  \<^item> \<open>unicode_lower s\<close> is \<open>s.lower()\<close> for a string with a code point from 128 on (a
    string below 128 is lowered letter by letter);
  \<^item> \<open>fromisoformat_ok s\<close> says that \<open>datetime.fromisoformat(s)\<close> returns;
  \<^item> \<open>json_loads b\<close> is the decoded body, \<open>None\<close> when decoding raises;
  \<^item> \<open>constr_str_ok s\<close> says that pydantic takes the string \<open>s\<close> for a field with a length
    constraint (version 2 refuses a string with a lone surrogate, version 1 takes it);
  \<^item> \<open>row_too_big r\<close> says that the record of the row \<open>r\<close> is longer than SQLite's
    \<open>SQLITE_MAX_LENGTH\<close>.
\<close>

datatype jvalue = JNull | JStr ustr | JOther

datatype json_doc = JObject "string \<rightharpoonup> jvalue" | JNonObject

record libs =
  unicode_isdigit :: "nat \<Rightarrow> bool"
  unicode_decimal :: "nat \<Rightarrow> bool"
  unicode_lower :: "ustr \<Rightarrow> ustr"
  fromisoformat_ok :: "ustr \<Rightarrow> bool"
  json_loads :: "bytes \<Rightarrow> json_doc option"
  constr_str_ok :: "ustr \<Rightarrow> bool"
  row_too_big :: "message \<Rightarrow> bool"

definition isdigit :: "libs \<Rightarrow> nat \<Rightarrow> bool" where
  "isdigit L c = (if c < 128 then ascii_digit c else unicode_isdigit L c)"

definition re_digit :: "libs \<Rightarrow> nat \<Rightarrow> bool" where
  "re_digit L c = (if c < 128 then ascii_digit c else unicode_decimal L c)"

definition lower :: "libs \<Rightarrow> ustr \<Rightarrow> ustr" where
  "lower L s = (if list_all (\<lambda>c. c < 128) s then map ascii_lower s else unicode_lower L s)"

section \<open>Inserting (storage.py)\<close>

text \<open>
  The \<open>sqlite3\<close> driver encodes a string parameter as UTF-8 and raises
  \<open>UnicodeEncodeError\<close> when it cannot; SQLite refuses a parameter of more than
  \<open>SQLITE_MAX_LENGTH\<close> bytes, 1000000000 by default (\<open>DataError\<close>, or \<open>OverflowError\<close> above
  \<open>INT_MAX\<close>).
\<close>

definition bindable :: "ustr \<Rightarrow> bool" where
  "bindable s = (case encode_utf8 s of None \<Rightarrow> False | Some b \<Rightarrow> length b \<le> 1000000000)"

fun bindable_opt :: "ustr option \<Rightarrow> bool" where
  "bindable_opt None = True"
| "bindable_opt (Some s) = bindable s"

text \<open>
  \<open>insert_message\<close>. \<open>now\<close> is the value of \<open>utc_now_iso()\<close> at the call. The function
  catches \<open>IntegrityError\<close>, which the \<open>INSERT\<close> raises when the primary key is already in
  the table, and returns \<open>(False, True)\<close> with nothing written. Every other exception
  leaves the function (the result \<open>None\<close>), also with nothing written: a parameter that
  cannot be bound, and a row that is too big.
\<close>

definition insert_message ::
  "libs \<Rightarrow> ustr \<Rightarrow> ustr \<Rightarrow> ustr \<Rightarrow> ustr \<Rightarrow> ustr \<Rightarrow> ustr option \<Rightarrow> store
     \<Rightarrow> (bool \<times> bool) option \<times> store" where
  "insert_message L now mid frm dst t tx st =
     (let row = \<lparr>message_id = mid, from_msisdn = frm, to_msisdn = dst, ts = t,
                 msg_text = tx, created_at = now\<rparr>
      in
      if \<not> (bindable mid \<and> bindable frm \<and> bindable dst \<and> bindable t \<and> bindable_opt tx \<and>
             bindable now) then (None, st)
      else if mid \<in> set (map message_id st) then (Some (False, True), st)
      else if row_too_big L row then (None, st)
      else (Some (True, False), st @ [row]))"

section \<open>The webhook (main.py)\<close>

datatype http_error = HTTPException int string | Unhandled

fun status_code :: "http_error + 'a \<Rightarrow> int" where
  "status_code (Inl (HTTPException c d)) = c"
| "status_code (Inl Unhandled) = 500"
| "status_code (Inr r) = 200"

text \<open>
  \<open>E164_REGEX.match\<close> for \<open>^\+[1-9]\d{7,14}$\<close>: a plus sign, a digit from 1 to 9, then the
  longest run of characters of \<open>\d\<close>, 7 to 14 of them, and then \<open>$\<close>, which in Python
  matches at the end of the string and also just before a newline that ends the string.
\<close>

definition E164_match :: "libs \<Rightarrow> ustr \<Rightarrow> bool" where
  "E164_match L s =
     (case s of
        [] \<Rightarrow> False
      | c # cs \<Rightarrow>
          c = 43 \<and>
          (case cs of
             [] \<Rightarrow> False
           | d # ds \<Rightarrow>
               49 \<le> d \<and> d \<le> 57 \<and>
               (let run = takeWhile (re_digit L) ds; rest = dropWhile (re_digit L) ds
                in 7 \<le> length run \<and> length run \<le> 14 \<and> (rest = [] \<or> rest = [10]))))"

text \<open>
  The pydantic model \<open>WebhookMessage\<close>. The value under a key is \<open>JStr s\<close> when pydantic
  takes it for the string \<open>s\<close>, \<open>JNull\<close> when it is null and \<open>JOther\<close> when pydantic
  refuses it for a string. A field of type \<open>str\<close> must be present and a string; \<open>text\<close>
  may be missing or null; \<open>message_id\<close> and \<open>text\<close> carry a length constraint. The error
  carries the name of the first field that fails, in place of pydantic's message.
\<close>

record webhook_message =
  wm_message_id :: ustr
  wm_from :: ustr
  wm_to :: ustr
  wm_ts :: ustr
  wm_text :: "ustr option"

fun str_field :: "string \<Rightarrow> jvalue option \<Rightarrow> string + ustr" where
  "str_field name (Some (JStr s)) = Inr s"
| "str_field name _ = Inl name"

fun opt_str_field :: "string \<Rightarrow> jvalue option \<Rightarrow> string + ustr option" where
  "opt_str_field name None = Inr None"
| "opt_str_field name (Some JNull) = Inr None"
| "opt_str_field name (Some (JStr s)) = Inr (Some s)"
| "opt_str_field name (Some JOther) = Inl name"

definition WebhookMessage :: "libs \<Rightarrow> (string \<rightharpoonup> jvalue) \<Rightarrow> string + webhook_message" where
  "WebhookMessage L payload =
     (case str_field ''message_id'' (payload ''message_id'') of Inl e \<Rightarrow> Inl e | Inr mid \<Rightarrow>
      if \<not> constr_str_ok L mid \<or> length mid < 1 then Inl ''message_id'' else
      case str_field ''from'' (payload ''from'') of Inl e \<Rightarrow> Inl e | Inr frm \<Rightarrow>
      case str_field ''to'' (payload ''to'') of Inl e \<Rightarrow> Inl e | Inr dst \<Rightarrow>
      case str_field ''ts'' (payload ''ts'') of Inl e \<Rightarrow> Inl e | Inr t \<Rightarrow>
      case opt_str_field ''text'' (payload ''text'') of Inl e \<Rightarrow> Inl e | Inr tx \<Rightarrow>
      if (case tx of None \<Rightarrow> False | Some x \<Rightarrow> \<not> constr_str_ok L x \<or> length x > 4096)
        then Inl ''text'' else
      Inr \<lparr>wm_message_id = mid, wm_from = frm, wm_to = dst, wm_ts = t, wm_text = tx\<rparr>)"

definition validate_fields :: "libs \<Rightarrow> webhook_message \<Rightarrow> string + unit" where
  "validate_fields L m =
     (if \<not> E164_match L (wm_from m) then Inl ''Invalid from number''
      else if \<not> E164_match L (wm_to m) then Inl ''Invalid to number''
      else if \<not> endswith (wm_ts m) (u ''Z'') then Inl ''ts must end with Z''
      else if \<not> fromisoformat_ok L (replace_char 90 (u ''+00:00'') (wm_ts m))
        then Inl ''Invalid ts format''
      else Inr ())"

text \<open>
  A request to \<open>POST /webhook\<close>: the header \<open>X-Signature\<close>, if any, and the raw body.
  The handler returns the response, the \<open>result\<close> label it counts and logs, and the table.
  \<open>secret\<close> is \<open>WEBHOOK_SECRET\<close>. The handler turns into a response only the exceptions
  it raises itself: an exception of \<open>compute_signature\<close>, of \<open>payload.get\<close> on a decoded
  body that is not an object, or of \<open>insert_message\<close> leaves it, and the framework
  answers 500 (\<open>Unhandled\<close>).
\<close>

record request =
  x_signature :: "ustr option"
  body :: bytes

type_synonym json_obj = "(string \<times> string) list"

definition webhook ::
  "libs \<Rightarrow> ustr \<Rightarrow> ustr \<Rightarrow> request \<Rightarrow> store
     \<Rightarrow> (http_error + json_obj) \<times> string \<times> store" where
  "webhook L secret now req st =
     (if secret = [] then
        (Inl (HTTPException 503 ''webhook secret not configured''), ''secret_missing'', st)
      else
        let raw_body = body req;
            x_sig = (case x_signature req of None \<Rightarrow> [] | Some h \<Rightarrow> h)
        in
        case compute_signature secret raw_body of
          None \<Rightarrow> (Inl Unhandled, ''unknown'', st)
        | Some expected_sig \<Rightarrow>
            if x_sig = [] \<or> x_sig \<noteq> expected_sig then
              (Inl (HTTPException 401 ''invalid signature''), ''invalid_signature'', st)
            else
              case json_loads L raw_body of
                None \<Rightarrow> (Inl (HTTPException 422 ''invalid json''), ''validation_error'', st)
              | Some JNonObject \<Rightarrow> (Inl Unhandled, ''unknown'', st)
              | Some (JObject payload) \<Rightarrow>
                  (case WebhookMessage L payload of
                     Inl e \<Rightarrow> (Inl (HTTPException 422 e), ''validation_error'', st)
                   | Inr msg \<Rightarrow>
                       (case validate_fields L msg of
                          Inl e \<Rightarrow> (Inl (HTTPException 422 e), ''validation_error'', st)
                        | Inr x \<Rightarrow>
                            (case insert_message L now (wm_message_id msg) (wm_from msg)
                                    (wm_to msg) (wm_ts msg) (wm_text msg) st of
                               (None, st') \<Rightarrow> (Inl Unhandled, ''unknown'', st')
                             | (Some (created, duplicate), st') \<Rightarrow>
                                 (Inr [(''status'', ''ok'')],
                                  if duplicate then ''duplicate'' else ''created'', st')))))"

section \<open>Queries (storage.py)\<close>

text \<open>
  SQLite's \<open>LIKE\<close> without \<open>ESCAPE\<close>: in the pattern \<open>%\<close> stands for any run of
  characters, \<open>_\<close> for any one character, and every other character for itself, ASCII
  letters compared without case. The function reads the pattern and the text as C
  strings, up to the first NUL, and raises an error for a pattern of more than
  \<open>SQLITE_MAX_LIKE_PATTERN_LENGTH\<close> bytes, 50000 by default (the result \<open>None\<close>).
\<close>

fun like_match :: "ustr \<Rightarrow> ustr \<Rightarrow> bool" where
  "like_match [] [] = True"
| "like_match [] (c # cs) = False"
| "like_match (p # ps) [] = (p = 37 \<and> like_match ps [])"
| "like_match (p # ps) (c # cs) =
     (if p = 37 then like_match ps (c # cs) \<or> like_match (p # ps) cs
      else if p = 95 then like_match ps cs
      else ascii_lower p = ascii_lower c \<and> like_match ps cs)"

definition c_string :: "ustr \<Rightarrow> ustr" where
  "c_string s = takeWhile (\<lambda>c. c \<noteq> 0) s"

definition sql_like :: "ustr \<Rightarrow> ustr \<Rightarrow> bool option" where
  "sql_like pat s =
     (case encode_utf8 pat of
        None \<Rightarrow> None
      | Some b \<Rightarrow> if length b > 50000 then None
                  else Some (like_match (c_string pat) (c_string s)))"

text \<open>
  \<open>_build_filters\<close> returns the text of a \<open>WHERE\<close> clause and its parameters. The
  model keeps each clause with its parameter: \<open>from_msisdn = ?\<close>, \<open>ts >= ?\<close> and
  \<open>LOWER(COALESCE(text, '')) LIKE ?\<close>. The clauses are joined by \<open>AND\<close>, and SQLite
  tests them on a row from left to right until one is false. SQLite's \<open>LOWER\<close> lowers
  the ASCII letters only.
\<close>

datatype clause = FromEq ustr | TsGe ustr | TextLike ustr

definition build_filters :: "libs \<Rightarrow> ustr option \<Rightarrow> ustr option \<Rightarrow> ustr option \<Rightarrow> clause list" where
  "build_filters L frm since q =
     (if truthy frm then (case frm of Some v \<Rightarrow> [FromEq v] | None \<Rightarrow> []) else []) @
     (if truthy since then (case since of Some v \<Rightarrow> [TsGe v] | None \<Rightarrow> []) else []) @
     (if truthy q then (case q of Some v \<Rightarrow> [TextLike (u ''%'' @ lower L v @ u ''%'')] | None \<Rightarrow> [])
      else [])"

fun clause_param :: "clause \<Rightarrow> ustr" where
  "clause_param (FromEq v) = v"
| "clause_param (TsGe v) = v"
| "clause_param (TextLike v) = v"

fun clause_value :: "message \<Rightarrow> clause \<Rightarrow> bool option" where
  "clause_value r (FromEq v) = Some (from_msisdn r = v)"
| "clause_value r (TsGe v) = Some (ts r \<ge> v)"
| "clause_value r (TextLike pat) =
     sql_like pat (map ascii_lower (case msg_text r of None \<Rightarrow> [] | Some t \<Rightarrow> t))"

fun where_value :: "clause list \<Rightarrow> message \<Rightarrow> bool option" where
  "where_value [] r = Some True"
| "where_value (c # cs) r =
     (case clause_value r c of
        None \<Rightarrow> None
      | Some b \<Rightarrow> if b then where_value cs r else Some False)"

text \<open>
  The scan of the table: the rows for which the clause is true, or the error of the
  first row whose test raises. A statement whose parameters cannot be bound raises
  before the scan.
\<close>

fun select_rows :: "clause list \<Rightarrow> store \<Rightarrow> message list option" where
  "select_rows cs [] = Some []"
| "select_rows cs (r # st) =
     (case where_value cs r of
        None \<Rightarrow> None
      | Some b \<Rightarrow>
          (case select_rows cs st of
             None \<Rightarrow> None
           | Some rows \<Rightarrow> Some (if b then r # rows else rows)))"

definition count_messages ::
  "libs \<Rightarrow> ustr option \<Rightarrow> ustr option \<Rightarrow> ustr option \<Rightarrow> store \<Rightarrow> int option" where
  "count_messages L frm since q st =
     (let cs = build_filters L frm since q
      in if list_all (\<lambda>c. bindable (clause_param c)) cs
         then map_option (\<lambda>rows. int (length rows)) (select_rows cs st)
         else None)"

text \<open>
  \<open>ORDER BY ts ASC, message_id ASC\<close> sorts by the pair, and \<open>LIMIT ? OFFSET ?\<close> cuts
  the sorted rows: a negative limit is no limit, a negative offset is 0. The Python
  integers bound to the two parameters must fit SQLite's 64-bit \<open>INTEGER\<close>, else the
  driver raises \<open>OverflowError\<close>. \<open>fetch_messages\<close> copies each row into a dict of its six
  columns; the model returns the rows themselves.
\<close>

definition order_key :: "message \<Rightarrow> ustr \<times> ustr" where
  "order_key r = (ts r, message_id r)"

definition sql_limit_offset :: "int \<Rightarrow> int \<Rightarrow> 'a list \<Rightarrow> 'a list" where
  "sql_limit_offset lim off xs =
     (let ys = drop (nat off) xs in if lim < 0 then ys else take (nat lim) ys)"

definition sqlite_int :: "int \<Rightarrow> bool" where
  "sqlite_int n = (- (2 ^ 63) \<le> n \<and> n < 2 ^ 63)"

definition fetch_messages ::
  "libs \<Rightarrow> ustr option \<Rightarrow> ustr option \<Rightarrow> ustr option \<Rightarrow> int \<Rightarrow> int \<Rightarrow> store
     \<Rightarrow> message list option" where
  "fetch_messages L frm since q lim off st =
     (let cs = build_filters L frm since q
      in if list_all (\<lambda>c. bindable (clause_param c)) cs \<and> sqlite_int lim \<and> sqlite_int off
         then map_option (\<lambda>rows. sql_limit_offset lim off (sort_key order_key rows))
                (select_rows cs st)
         else None)"

text \<open>
  \<open>get_stats\<close>. The query for the senders is \<open>GROUP BY from_msisdn ORDER BY cnt DESC
  LIMIT 10\<close>: it names no second sort key, so the rows it may return are the first ten
  of any arrangement of the groups in which the counts do not increase. The function is
  therefore a relation between the table and the result.
\<close>

record stats =
  total_messages :: int
  senders_count :: int
  messages_per_sender :: "(ustr \<times> int) list"
  first_message_ts :: "ustr option"
  last_message_ts :: "ustr option"

definition sender_groups :: "store \<Rightarrow> (ustr \<times> int) list" where
  "sender_groups st =
     map (\<lambda>s. (s, int (length (filter (\<lambda>r. from_msisdn r = s) st)))) (remdups (map from_msisdn st))"

definition top_senders_query :: "store \<Rightarrow> (ustr \<times> int) list \<Rightarrow> bool" where
  "top_senders_query st rows =
     (\<exists>gs. mset gs = mset (sender_groups st) \<and> sorted_wrt (\<lambda>a b. snd a \<ge> snd b) gs \<and>
           rows = take 10 gs)"

definition get_stats :: "store \<Rightarrow> stats \<Rightarrow> bool" where
  "get_stats st r =
     (total_messages r = int (length st) \<and>
      senders_count r = int (length (remdups (map from_msisdn st))) \<and>
      top_senders_query st (messages_per_sender r) \<and>
      first_message_ts r = (case sort_key order_key st of [] \<Rightarrow> None | x # xs \<Rightarrow> Some (ts x)) \<and>
      last_message_ts r = (case rev (sort_key order_key st) of [] \<Rightarrow> None | x # xs \<Rightarrow> Some (ts x)))"

section \<open>GET /messages (main.py)\<close>

text \<open>
  The block of \<open>get_messages\<close> that normalises the query parameter \<open>from\<close>: a value that
  is not empty is stripped, and the stripped value gets a plus sign in front when it is
  not empty, does not start with one and its first character satisfies \<open>isdigit()\<close>.
\<close>

definition normalize_from :: "libs \<Rightarrow> ustr option \<Rightarrow> ustr option" where
  "normalize_from L frm =
     (if truthy frm then
        (case frm of
           None \<Rightarrow> None
         | Some v \<Rightarrow>
             let s = strip v
             in if s \<noteq> [] \<and> \<not> startswith s (u ''+'') \<and> isdigit L (hd s) then Some (43 # s)
                else Some s)
      else frm)"

record messages_response =
  r_data :: "message list"
  r_total :: int
  r_limit :: int
  r_offset :: int

text \<open>
  The handler; a query parameter that the request leaves out is \<open>None\<close>, and \<open>limit\<close> and
  \<open>offset\<close> then take their defaults 50 and 0. An exception of \<open>count_messages\<close> or of
  \<open>fetch_messages\<close> leaves the handler.
\<close>

definition get_messages ::
  "libs \<Rightarrow> int option \<Rightarrow> int option \<Rightarrow> ustr option \<Rightarrow> ustr option \<Rightarrow> ustr option \<Rightarrow> store
     \<Rightarrow> http_error + messages_response" where
  "get_messages L limit_q offset_q from_q since q st =
     (let lim = (case limit_q of None \<Rightarrow> 50 | Some l \<Rightarrow> l);
          off = (case offset_q of None \<Rightarrow> 0 | Some k \<Rightarrow> k)
      in
      if lim < 1 then Inl (HTTPException 422 ''limit must be >= 1'')
      else if lim > 100 then Inl (HTTPException 422 ''limit must be <= 100'')
      else if off < 0 then Inl (HTTPException 422 ''offset must be >= 0'')
      else
        let frm = normalize_from L from_q
        in case count_messages L frm since q st of
             None \<Rightarrow> Inl Unhandled
           | Some cnt \<Rightarrow>
               (case fetch_messages L frm since q lim off st of
                  None \<Rightarrow> Inl Unhandled
                | Some rows \<Rightarrow>
                    Inr \<lparr>r_data = rows, r_total = cnt, r_limit = lim, r_offset = off\<rparr>))"

section \<open>Values for the examples\<close>

text \<open>
  The rows and the payload of the repository's tests, with the body as \<open>json.dumps\<close>
  writes it and the secret of the tests; two more rows and bodies; and stand-ins for
  the libraries. \<open>iso_layout\<close> describes strings that \<open>datetime.fromisoformat\<close> parses:
  a date \<open>YYYY-MM-DD\<close>, any one character, a time \<open>HH:MM:SS\<close> and an offset \<open>+HH:MM\<close>.
\<close>

definition m1 :: message where
  "m1 = \<lparr>message_id = u ''m1'', from_msisdn = u ''+919876543210'',
          to_msisdn = u ''+14155550100'', ts = u ''2025-01-15T10:00:00Z'',
          msg_text = Some (u ''Hello world''), created_at = u ''2025-01-15T10:00:05Z''\<rparr>"

definition m2 :: message where
  "m2 = \<lparr>message_id = u ''m2'', from_msisdn = u ''+919876543210'',
          to_msisdn = u ''+14155550100'', ts = u ''2025-01-15T10:01:00Z'',
          msg_text = Some (u ''Second message''), created_at = u ''2025-01-15T10:01:05Z''\<rparr>"

definition m3 :: message where
  "m3 = \<lparr>message_id = u ''m3'', from_msisdn = u ''+918888888888'',
          to_msisdn = u ''+14155550100'', ts = u ''2025-01-15T10:02:00Z'',
          msg_text = Some (u ''Other sender''), created_at = u ''2025-01-15T10:02:05Z''\<rparr>"

definition m4 :: message where
  "m4 = \<lparr>message_id = u ''m4'', from_msisdn = u ''+918888888888'',
          to_msisdn = u ''+14155550100'', ts = u ''2025-01-15T10:03:00Z'',
          msg_text = None, created_at = u ''2025-01-15T10:03:05Z''\<rparr>"

text \<open>A row whose text holds the character NUL: \<open>a\<close>, NUL, \<open>b\<close>.\<close>

definition nul_row :: message where
  "nul_row = m1\<lparr>msg_text := Some (u ''a'' @ [0] @ u ''b'')\<rparr>"

definition test_payload :: "string \<rightharpoonup> jvalue" where
  "test_payload =
     [''message_id'' \<mapsto> JStr (u ''m1''), ''from'' \<mapsto> JStr (u ''+919876543210''),
      ''to'' \<mapsto> JStr (u ''+14155550100''), ''ts'' \<mapsto> JStr (u ''2025-01-15T10:00:00Z''),
      ''text'' \<mapsto> JStr (u ''Hello world'')]"

definition test_body :: bytes where
  \<open>test_body = u ''{"message_id": "m1", "from": "+919876543210", "to": "+14155550100", "ts": "2025-01-15T10:00:00Z", "text": "Hello world"}''\<close>

definition test_secret :: ustr where
  "test_secret = u ''testsecret''"

definition test_signature :: ustr where
  "test_signature = u ''129f67caf18ba3abb28148534ea852adfbf904c0410cd65dc72740044950041a''"

definition test_request :: request where
  "test_request = \<lparr>x_signature = Some test_signature, body = test_body\<rparr>"

text \<open>
  A payload whose \<open>from\<close> ends with a newline, and one whose \<open>ts\<close> has the lone surrogate
  U+D800 between date and time; in the bodies they are the escapes \<open>\n\<close> and \<open>\ud800\<close>.
\<close>

definition newline_payload :: "string \<rightharpoonup> jvalue" where
  "newline_payload =
     [''message_id'' \<mapsto> JStr (u ''m5''), ''from'' \<mapsto> JStr (u ''+919876543210'' @ [10]),
      ''to'' \<mapsto> JStr (u ''+14155550100''), ''ts'' \<mapsto> JStr (u ''2025-01-15T10:00:00Z'')]"

definition newline_body :: bytes where
  \<open>newline_body = u ''{"message_id": "m5", "from": "+919876543210'' @ [92, 110] @
     u ''", "to": "+14155550100", "ts": "2025-01-15T10:00:00Z"}''\<close>

definition surrogate_ts :: ustr where
  "surrogate_ts = u ''2025-01-15'' @ [0xD800] @ u ''10:00:00Z''"

definition surrogate_payload :: "string \<rightharpoonup> jvalue" where
  "surrogate_payload =
     [''message_id'' \<mapsto> JStr (u ''m6''), ''from'' \<mapsto> JStr (u ''+919876543210''),
      ''to'' \<mapsto> JStr (u ''+14155550100''), ''ts'' \<mapsto> JStr surrogate_ts]"

definition surrogate_body :: bytes where
  \<open>surrogate_body = u ''{"message_id": "m6", "from": "+919876543210", "to": "+14155550100", "ts": "2025-01-15'' @
     [92] @ u ''ud80010:00:00Z"}''\<close>

definition iso_number :: "ustr \<Rightarrow> nat \<Rightarrow> nat" where
  "iso_number s i = (s ! i - 48) * 10 + (s ! (i + 1) - 48)"

definition iso_layout :: "ustr \<Rightarrow> bool" where
  "iso_layout s =
     (length s = 25 \<and>
      list_all (\<lambda>i. ascii_digit (s ! i))
        [0, 1, 2, 3, 5, 6, 8, 9, 11, 12, 14, 15, 17, 18, 20, 21, 23, 24] \<and>
      s ! 4 = 45 \<and> s ! 7 = 45 \<and> s ! 13 = 58 \<and> s ! 16 = 58 \<and> s ! 19 = 43 \<and> s ! 22 = 58 \<and>
      0 < iso_number s 0 + iso_number s 2 \<and>
      1 \<le> iso_number s 5 \<and> iso_number s 5 \<le> 12 \<and>
      1 \<le> iso_number s 8 \<and> iso_number s 8 \<le> 28 \<and>
      iso_number s 11 \<le> 23 \<and> iso_number s 14 \<le> 59 \<and> iso_number s 17 \<le> 59 \<and>
      iso_number s 20 \<le> 23 \<and> iso_number s 23 \<le> 59)"

definition test_libs :: libs where
  "test_libs =
     \<lparr>unicode_isdigit = (\<lambda>c. c = 0xB2 \<or> c = 0xB3 \<or> c = 0xB9 \<or> (0x660 \<le> c \<and> c \<le> 0x669)),
      unicode_decimal = (\<lambda>c. 0x660 \<le> c \<and> c \<le> 0x669),
      unicode_lower = map ascii_lower,
      fromisoformat_ok = iso_layout,
      json_loads = (\<lambda>b. if b = test_body then Some (JObject test_payload)
                        else if b = newline_body then Some (JObject newline_payload)
                        else if b = surrogate_body then Some (JObject surrogate_payload)
                        else None),
      constr_str_ok = (\<lambda>s. encode_utf8 s \<noteq> None),
      row_too_big = (\<lambda>r. False)\<rparr>"

section \<open>The specification's wording\<close>

text \<open>
  The rule for the parameter \<open>from\<close> in the words of the specification: a value whose
  first character is a digit and which does not start with a plus sign gets one in
  front, every other value stays as it is.
\<close>

definition spec_normalize_from :: "libs \<Rightarrow> ustr \<Rightarrow> ustr" where
  "spec_normalize_from L v =
     (if v \<noteq> [] \<and> isdigit L (hd v) \<and> \<not> startswith v (u ''+'') then 43 # v else v)"

text \<open>
  The E.164 pattern in the words of the specification: a plus sign followed by 8 to 15
  digits, the first of them from 1 to 9.
\<close>

definition e164_spec :: "libs \<Rightarrow> ustr \<Rightarrow> bool" where
  "e164_spec L s =
     (case s of
        [] \<Rightarrow> False
      | c # ds \<Rightarrow> c = 43 \<and> 8 \<le> length ds \<and> length ds \<le> 15 \<and> list_all (re_digit L) ds \<and>
                  49 \<le> hd ds \<and> hd ds \<le> 57)"

text \<open>
  The filter \<open>q\<close> in the words of the specification: \<open>q\<close> is a substring of the text
  without regard to case, an absent text being the empty string.
\<close>

definition spec_q_matches :: "libs \<Rightarrow> ustr \<Rightarrow> message \<Rightarrow> bool" where
  "spec_q_matches L q r =
     sublist (lower L q) (lower L (case msg_text r of None \<Rightarrow> [] | Some t \<Rightarrow> t))"

section \<open>HMAC-SHA256: the result and two known values\<close>

text \<open>
  A digest has 32 bytes, so a signature is never the empty string. The model computes
  the digest of \<open>abc\<close> that FIPS 180-4 gives, and for the body and the secret of the
  repository's tests the signature that \<open>hmac\<close> and \<open>hashlib\<close> give.
\<close>

lemma length_sha256: "length (sha256 msg) = 32"
proof -
  obtain a b c d e f g h where
    "foldl compress H256 (blocks (length (pad msg) div 64) (pad msg)) = (a, b, c, d, e, f, g, h)"
    by (metis surj_pair)
  then show ?thesis by (simp add: sha256_def word_bytes_def)
qed

lemma hexdigest_hmac_nonempty: "hexdigest (hmac_sha256 key msg) \<noteq> []"
proof -
  have "length (hmac_sha256 key msg) = 32"
    by (simp add: hmac_sha256_def Let_def length_sha256)
  then obtain b bs where "hmac_sha256 key msg = b # bs"
    by (cases "hmac_sha256 key msg") auto
  then show ?thesis by (simp add: hexdigest_def)
qed


lemma encode_test_secret: "encode_utf8 test_secret = Some test_secret"
  by (simp add: test_secret_def u_def utf8_char_def)

lemma sha256_abc:
  "hexdigest (sha256 (u ''abc'')) =
     u ''ba7816bf8f01cfea414140de5dae2223b00361a396177a9cb410ff61f20015ad''"
  by code_simp

lemma test_signature_hmac: "compute_signature test_secret test_body = Some test_signature"
  by code_simp

lemma test_signature_hex: "hexdigest (hmac_sha256 test_secret test_body) = test_signature"
  using test_signature_hmac by (simp add: compute_signature_def encode_test_secret)

section \<open>Strings that SQLite binds\<close>

lemma encode_utf8_ascii: "list_all (\<lambda>c. c < 128) s \<Longrightarrow> encode_utf8 s = Some s"
  by (induction s) (simp_all add: utf8_char_def)

lemma bindable_ascii: "list_all (\<lambda>c. c < 128) s \<Longrightarrow> length s \<le> 1000000000 \<Longrightarrow> bindable s"
  by (simp add: bindable_def encode_utf8_ascii)

section \<open>Idempotent insert\<close>

lemma insert_message_store_inv:
  "store_inv st \<Longrightarrow> store_inv (snd (insert_message L now mid frm dst t tx st))"
  by (simp add: insert_message_def store_inv_def Let_def)







section \<open>Signature check\<close>

text \<open>
  Claim C4, as stated, fails. The secret made of the one code point U+DCFF, which is
  what Python reads from an environment variable that holds the byte FF, is not empty
  and has no UTF-8 encoding. \<open>compute_signature\<close> raises before the handler looks at the
  header, so the request without \<open>X-Signature\<close> is answered 500 and not 401.
\<close>

theorem C4_counterexample:
  "[0xDCFF] \<noteq> ([] :: ustr) \<and>
   x_signature \<lparr>x_signature = None, body = test_body\<rparr> = None \<and>
   webhook test_libs [0xDCFF] (u ''2025-01-16T08:00:00Z'') \<lparr>x_signature = None, body = test_body\<rparr> [m2]
     = (Inl Unhandled, ''unknown'', [m2]) \<and>
   status_code (fst (webhook test_libs [0xDCFF] (u ''2025-01-16T08:00:00Z'')
     \<lparr>x_signature = None, body = test_body\<rparr> [m2])) = 500"
  by (simp add: webhook_def compute_signature_def utf8_char_def)

text \<open>
  Claim C4, amended. With an empty secret the handler raises 503 whatever the request
  holds. With a secret whose UTF-8 encoding is \<open>key\<close>, a request without the header
  \<open>X-Signature\<close>, or with a header that is not the hexadecimal HMAC-SHA256 of the raw
  body under \<open>key\<close>, gets 401. With a secret that is not empty and has no UTF-8 encoding
  every request gets 500. In the three cases the table is returned as it was.
\<close>

theorem C4_secret_and_signature:
  "(secret = [] \<longrightarrow>
      webhook L secret now req st =
        (Inl (HTTPException 503 ''webhook secret not configured''), ''secret_missing'', st)) \<and>
   (secret \<noteq> [] \<and> encode_utf8 secret = Some key \<and>
    (x_signature req = None \<or>
     x_signature req \<noteq> Some (hexdigest (hmac_sha256 key (body req)))) \<longrightarrow>
      webhook L secret now req st =
        (Inl (HTTPException 401 ''invalid signature''), ''invalid_signature'', st)) \<and>
   (secret \<noteq> [] \<and> encode_utf8 secret = None \<longrightarrow>
      webhook L secret now req st = (Inl Unhandled, ''unknown'', st))"
  by (auto simp add: webhook_def compute_signature_def Let_def split: option.splits)

theorem C4_secret_and_signature_witness:
  "webhook test_libs [] (u ''2025-01-16T08:00:00Z'') test_request [m2] =
     (Inl (HTTPException 503 ''webhook secret not configured''), ''secret_missing'', [m2]) \<and>
   test_secret \<noteq> [] \<and> encode_utf8 test_secret = Some test_secret \<and>
   hexdigest (hmac_sha256 test_secret test_body) = test_signature \<and>
   u ''wrong_signature'' \<noteq> test_signature \<and>
   webhook test_libs test_secret (u ''2025-01-16T08:00:00Z'')
       (test_request\<lparr>x_signature := Some (u ''wrong_signature'')\<rparr>) [m2] =
     (Inl (HTTPException 401 ''invalid signature''), ''invalid_signature'', [m2]) \<and>
   webhook test_libs test_secret (u ''2025-01-16T08:00:00Z'')
       (test_request\<lparr>x_signature := None\<rparr>) [m2] =
     (Inl (HTTPException 401 ''invalid signature''), ''invalid_signature'', [m2]) \<and>
   webhook test_libs [0xDCFF] (u ''2025-01-16T08:00:00Z'') test_request [m2] =
     (Inl Unhandled, ''unknown'', [m2])"
proof -
  have ne: "test_secret \<noteq> []" by (simp add: test_secret_def u_def)
  have d: "u ''wrong_signature'' \<noteq> test_signature"
    by (simp add: test_signature_def u_def)
  have bd: "body (test_request\<lparr>x_signature := x\<rparr>) = test_body" for x
    by (simp add: test_request_def)
  have s: "encode_utf8 [0xDCFF] = None" "[0xDCFF] \<noteq> ([]::ustr)"
    by (simp_all add: utf8_char_def)
  from C4_secret_and_signature [where secret = "[]" and L = test_libs and req = test_request
      and now = "u ''2025-01-16T08:00:00Z''" and st = "[m2]"]
  have a: "webhook test_libs [] (u ''2025-01-16T08:00:00Z'') test_request [m2] =
     (Inl (HTTPException 503 ''webhook secret not configured''), ''secret_missing'', [m2])"
    by simp
  from C4_secret_and_signature [where secret = test_secret and key = test_secret and L = test_libs
      and req = "test_request\<lparr>x_signature := Some (u ''wrong_signature'')\<rparr>"
      and now = "u ''2025-01-16T08:00:00Z''" and st = "[m2]"] ne d encode_test_secret
  have b: "webhook test_libs test_secret (u ''2025-01-16T08:00:00Z'')
       (test_request\<lparr>x_signature := Some (u ''wrong_signature'')\<rparr>) [m2] =
     (Inl (HTTPException 401 ''invalid signature''), ''invalid_signature'', [m2])"
    by (simp add: bd test_signature_hex)
  from C4_secret_and_signature [where secret = test_secret and key = test_secret and L = test_libs
      and req = "test_request\<lparr>x_signature := None\<rparr>"
      and now = "u ''2025-01-16T08:00:00Z''" and st = "[m2]"] ne encode_test_secret
  have c: "webhook test_libs test_secret (u ''2025-01-16T08:00:00Z'')
       (test_request\<lparr>x_signature := None\<rparr>) [m2] =
     (Inl (HTTPException 401 ''invalid signature''), ''invalid_signature'', [m2])"
    by simp
  from C4_secret_and_signature [where secret = "[0xDCFF]" and L = test_libs and req = test_request
      and now = "u ''2025-01-16T08:00:00Z''" and st = "[m2]"] s
  have e: "webhook test_libs [0xDCFF] (u ''2025-01-16T08:00:00Z'') test_request [m2] =
     (Inl Unhandled, ''unknown'', [m2])"
    by simp
  from a b c e ne d encode_test_secret test_signature_hex show ?thesis by simp
qed

section \<open>Limit and offset\<close>

lemma select_rows_filter:
  "select_rows cs st = Some rows \<Longrightarrow> rows = filter (\<lambda>r. where_value cs r = Some True) st"
proof (induction st arbitrary: rows)
  case Nil
  then show ?case by simp
next
  case (Cons r st)
  then show ?case by (auto split: option.splits if_splits)
qed

lemma select_rows_no_clause: "select_rows [] st = Some st"
  by (induction st) simp_all

lemma filters_and_combined:
  "where_value cs r = Some True \<longleftrightarrow> list_all (\<lambda>c. clause_value r c = Some True) cs"
  by (induction cs) (auto split: option.splits)

lemma sql_like_defined: "sql_like pat s \<noteq> None \<longleftrightarrow> sql_like pat [] \<noteq> None"
  by (simp add: sql_like_def split: option.splits)

lemma sql_like_bindable: "sql_like pat s \<noteq> None \<Longrightarrow> bindable pat"
  by (auto simp add: sql_like_def bindable_def split: option.splits if_splits)

lemma where_value_defined:
  "list_all (\<lambda>c. clause_value r c \<noteq> None) cs \<Longrightarrow> where_value cs r \<noteq> None"
  by (induction cs) (auto split: option.splits)

lemma select_rows_defined:
  "list_all (\<lambda>r. where_value cs r \<noteq> None) st \<Longrightarrow> select_rows cs st \<noteq> None"
  by (induction st) (auto split: option.splits)

lemma build_filters_defined:
  assumes "bindable_opt frm" and "bindable_opt since"
    and "case q of None \<Rightarrow> True | Some v \<Rightarrow> sql_like (u ''%'' @ lower L v @ u ''%'') [] \<noteq> None"
  shows "list_all (\<lambda>c. bindable (clause_param c)) (build_filters L frm since q)"
    and "select_rows (build_filters L frm since q) st \<noteq> None"
proof -
  let ?cs = "build_filters L frm since q"
  have q1: "bindable (u ''%'' @ lower L v @ u ''%'')" if "q = Some v" for v
    using assms(3) that sql_like_bindable[of "u ''%'' @ lower L v @ u ''%''" "[]"] by simp
  have q2: "sql_like (u ''%'' @ lower L v @ u ''%'') s \<noteq> None" if "q = Some v" for v s
    using assms(3) that sql_like_defined[of "u ''%'' @ lower L v @ u ''%''" s] by simp
  show b: "list_all (\<lambda>c. bindable (clause_param c)) ?cs"
    using assms(1,2) q1 by (cases frm; cases since; cases q) (simp_all add: build_filters_def)
  have "list_all (\<lambda>c. clause_value r c \<noteq> None) ?cs" for r
    using q2 by (cases frm; cases since; cases q) (simp_all add: build_filters_def)
  then have "where_value ?cs r \<noteq> None" for r
    by (rule where_value_defined)
  then have "list_all (\<lambda>r. where_value ?cs r \<noteq> None) st"
    by (simp add: list_all_iff)
  then show "select_rows ?cs st \<noteq> None"
    by (rule select_rows_defined)
qed

text \<open>
  Claim C8. A request without \<open>limit\<close> is handled as one with \<open>limit=50\<close>, and one
  without \<open>offset\<close> as one with \<open>offset=0\<close>. The handler raises 422 exactly when the limit
  is below 1 or above 100 or the offset is negative. A response carries the limit and
  the offset of the request. There is a response whenever the limit is from 1 to 100,
  the offset is not negative and fits SQLite's integer, the values of \<open>from\<close> and \<open>since\<close>
  are strings that SQLite binds and the pattern made from \<open>q\<close> is one that \<open>LIKE\<close> takes
  (it encodes as UTF-8 in at most 50000 bytes); without filters there is one for every
  such limit and offset.
\<close>

theorem C8_limit_offset:
  "get_messages L None offset_q from_q since q st = get_messages L (Some 50) offset_q from_q since q st \<and>
   get_messages L limit_q None from_q since q st = get_messages L limit_q (Some 0) from_q since q st \<and>
   ((\<exists>d. get_messages L (Some l) (Some k) from_q since q st = Inl (HTTPException 422 d))
      \<longleftrightarrow> (l < 1 \<or> 100 < l \<or> k < 0)) \<and>
   (\<forall>r. get_messages L (Some l) (Some k) from_q since q st = Inr r \<longrightarrow> r_limit r = l \<and> r_offset r = k) \<and>
   (1 \<le> l \<and> l \<le> 100 \<and> 0 \<le> k \<and> k < 2 ^ 63 \<and>
    bindable_opt (normalize_from L from_q) \<and> bindable_opt since \<and>
    (case q of None \<Rightarrow> True | Some v \<Rightarrow> sql_like (u ''%'' @ lower L v @ u ''%'') [] \<noteq> None) \<longrightarrow>
      (\<exists>r. get_messages L (Some l) (Some k) from_q since q st = Inr r)) \<and>
   (1 \<le> l \<and> l \<le> 100 \<and> 0 \<le> k \<and> k < 2 ^ 63 \<longrightarrow>
      (\<exists>r. get_messages L (Some l) (Some k) None None None st = Inr r))"
proof (intro conjI)
  show "get_messages L None offset_q from_q since q st = get_messages L (Some 50) offset_q from_q since q st"
    by (simp add: get_messages_def)
  show "get_messages L limit_q None from_q since q st = get_messages L limit_q (Some 0) from_q since q st"
    by (simp add: get_messages_def)
  show "(\<exists>d. get_messages L (Some l) (Some k) from_q since q st = Inl (HTTPException 422 d))
      \<longleftrightarrow> (l < 1 \<or> 100 < l \<or> k < 0)"
    by (auto simp add: get_messages_def Let_def split: option.splits)
  show "\<forall>r. get_messages L (Some l) (Some k) from_q since q st = Inr r \<longrightarrow> r_limit r = l \<and> r_offset r = k"
    by (auto simp add: get_messages_def Let_def split: option.splits if_splits)
  show "1 \<le> l \<and> l \<le> 100 \<and> 0 \<le> k \<and> k < 2 ^ 63 \<and>
    bindable_opt (normalize_from L from_q) \<and> bindable_opt since \<and>
    (case q of None \<Rightarrow> True | Some v \<Rightarrow> sql_like (u ''%'' @ lower L v @ u ''%'') [] \<noteq> None) \<longrightarrow>
      (\<exists>r. get_messages L (Some l) (Some k) from_q since q st = Inr r)"
  proof
    assume h: "1 \<le> l \<and> l \<le> 100 \<and> 0 \<le> k \<and> k < 2 ^ 63 \<and>
      bindable_opt (normalize_from L from_q) \<and> bindable_opt since \<and>
      (case q of None \<Rightarrow> True | Some v \<Rightarrow> sql_like (u ''%'' @ lower L v @ u ''%'') [] \<noteq> None)"
    let ?cs = "build_filters L (normalize_from L from_q) since q"
    from h have b: "list_all (\<lambda>c. bindable (clause_param c)) ?cs"
      by (simp add: build_filters_defined(1))
    from h have "select_rows ?cs st \<noteq> None"
      by (simp add: build_filters_defined(2))
    then obtain rows where r: "select_rows ?cs st = Some rows" by blast
    from h have i: "sqlite_int l" "sqlite_int k" "\<not> l < 1" "\<not> l > 100" "\<not> k < 0"
      by (simp_all add: sqlite_int_def)
    show "\<exists>r. get_messages L (Some l) (Some k) from_q since q st = Inr r"
      using b r i by (simp add: get_messages_def count_messages_def fetch_messages_def)
  qed
  show "1 \<le> l \<and> l \<le> 100 \<and> 0 \<le> k \<and> k < 2 ^ 63 \<longrightarrow>
      (\<exists>r. get_messages L (Some l) (Some k) None None None st = Inr r)"
    by (auto simp add: get_messages_def count_messages_def fetch_messages_def sqlite_int_def Let_def
        normalize_from_def build_filters_def select_rows_no_clause)
qed

theorem C8_limit_offset_witness:
  "get_messages test_libs None None None None None [m1] =
     Inr \<lparr>r_data = [m1], r_total = 1, r_limit = 50, r_offset = 0\<rparr> \<and>
   (\<exists>d. get_messages test_libs (Some 101) (Some 0) None None None [m1] = Inl (HTTPException 422 d)) \<and>
   (\<exists>d. get_messages test_libs (Some 0) (Some 0) None None None [m1] = Inl (HTTPException 422 d)) \<and>
   (\<exists>d. get_messages test_libs (Some 10) (Some (- 1)) None None None [m1] = Inl (HTTPException 422 d)) \<and>
   (\<exists>r. get_messages test_libs (Some 100) (Some 7) None None None [m1] = Inr r \<and>
        r_limit r = 100 \<and> r_offset r = 7) \<and>
   bindable_opt (normalize_from test_libs (Some (u ''919876543210''))) \<and>
   bindable_opt (Some (u ''2025-01-15T10:00:00Z'')) \<and>
   sql_like (u ''%'' @ lower test_libs (u ''Hello'') @ u ''%'') [] \<noteq> None \<and>
   (\<exists>r. get_messages test_libs (Some 100) (Some 7) (Some (u ''919876543210''))
          (Some (u ''2025-01-15T10:00:00Z'')) (Some (u ''Hello'')) [m1] = Inr r \<and>
        r_limit r = 100 \<and> r_offset r = 7)"
proof -
  have b: "bindable_opt (normalize_from test_libs (Some (u ''919876543210'')))"
    "bindable_opt (Some (u ''2025-01-15T10:00:00Z''))"
    "sql_like (u ''%'' @ lower test_libs (u ''Hello'') @ u ''%'') [] \<noteq> None"
    by (simp_all add: normalize_from_def strip_def is_space_def isdigit_def ascii_digit_def
        startswith_def bindable_def sql_like_def lower_def ascii_lower_def utf8_char_def u_def)
  have g: "get_messages test_libs None None None None None [m1] =
     Inr \<lparr>r_data = [m1], r_total = 1, r_limit = 50, r_offset = 0\<rparr>"
    by (simp add: get_messages_def fetch_messages_def count_messages_def build_filters_def
      normalize_from_def sql_limit_offset_def sqlite_int_def)
  note t = C8_limit_offset [where L = test_libs and st = "[m1]" and limit_q = None
      and offset_q = None]
  from t [where l = 101 and k = 0 and from_q = None and since = None and q = None]
  have c1: "\<exists>d. get_messages test_libs (Some 101) (Some 0) None None None [m1] = Inl (HTTPException 422 d)"
    by simp
  from t [where l = 0 and k = 0 and from_q = None and since = None and q = None]
  have c2: "\<exists>d. get_messages test_libs (Some 0) (Some 0) None None None [m1] = Inl (HTTPException 422 d)"
    by simp
  from t [where l = 10 and k = "- 1" and from_q = None and since = None and q = None]
  have c3: "\<exists>d. get_messages test_libs (Some 10) (Some (- 1)) None None None [m1] = Inl (HTTPException 422 d)"
    by simp
  from t [where l = 100 and k = 7 and from_q = None and since = None and q = None]
  have c4: "\<exists>r. get_messages test_libs (Some 100) (Some 7) None None None [m1] = Inr r \<and>
        r_limit r = 100 \<and> r_offset r = 7"
    by auto
  from t [where l = 100 and k = 7 and from_q = "Some (u ''919876543210'')"
      and since = "Some (u ''2025-01-15T10:00:00Z'')" and q = "Some (u ''Hello'')"] b
  have c5: "\<exists>r. get_messages test_libs (Some 100) (Some 7) (Some (u ''919876543210''))
          (Some (u ''2025-01-15T10:00:00Z'')) (Some (u ''Hello'')) [m1] = Inr r \<and>
        r_limit r = 100 \<and> r_offset r = 7"
    by auto
  from g c1 c2 c3 c4 c5 b show ?thesis by simp
qed

section \<open>Empty query parameters\<close>

lemma strip_all_space: "\<forall>c\<in>set ws. is_space c \<Longrightarrow> strip ws = []"
proof -
  assume "\<forall>c\<in>set ws. is_space c"
  then have h: "dropWhile is_space ws = []" by (induction ws) auto
  show ?thesis unfolding strip_def h by simp
qed

lemma normalize_from_blank:
  "\<forall>c\<in>set ws. is_space c \<Longrightarrow>
     build_filters L (normalize_from L (Some ws)) since q = build_filters L None since q"
  by (cases ws) (simp_all add: normalize_from_def build_filters_def strip_all_space Let_def)

lemma sort_m1_m3: "sort_key order_key [m1, m3] = [m1, m3]"
  by (simp add: order_key_def m1_def m3_def u_def less_eq_prod_def less_prod_def)

text \<open>
  Claim C10. A \<open>from\<close> that is empty or all white space, a \<open>since\<close> that is empty and a
  \<open>q\<close> that is empty each give the response of the request without that parameter: the
  same error or the same data and total. White space is what \<open>str.strip()\<close> removes, the
  no-break space and the other Unicode spaces included.
\<close>

theorem C10_empty_parameters:
  "((\<forall>c\<in>set ws. is_space c) \<longrightarrow>
      get_messages L limit_q offset_q (Some ws) since q st = get_messages L limit_q offset_q None since q st) \<and>
   get_messages L limit_q offset_q from_q (Some []) q st = get_messages L limit_q offset_q from_q None q st \<and>
   get_messages L limit_q offset_q from_q since (Some []) st = get_messages L limit_q offset_q from_q since None st"
proof -
  have n: "normalize_from L None = None"
    by (simp add: normalize_from_def)
  have a: "get_messages L limit_q offset_q (Some ws) since q st = get_messages L limit_q offset_q None since q st"
    if w: "\<forall>c\<in>set ws. is_space c"
  proof -
    have cm: "count_messages L (normalize_from L (Some ws)) since q st =
        count_messages L (normalize_from L None) since q st"
      by (simp add: count_messages_def normalize_from_blank[OF w] n)
    have fm: "fetch_messages L (normalize_from L (Some ws)) since q lim off st =
        fetch_messages L (normalize_from L None) since q lim off st" for lim off
      by (simp add: fetch_messages_def normalize_from_blank[OF w] n)
    show ?thesis unfolding get_messages_def Let_def cm fm ..
  qed
  have b: "get_messages L limit_q offset_q from_q (Some []) q st = get_messages L limit_q offset_q from_q None q st"
  proof -
    have bf: "build_filters L f (Some []) q = build_filters L f None q" for f
      by (simp add: build_filters_def)
    have cm: "count_messages L f (Some []) q st = count_messages L f None q st" for f
      by (simp add: count_messages_def bf)
    have fm: "fetch_messages L f (Some []) q lim off st = fetch_messages L f None q lim off st"
      for f lim off
      by (simp add: fetch_messages_def bf)
    show ?thesis unfolding get_messages_def Let_def cm fm ..
  qed
  have c: "get_messages L limit_q offset_q from_q since (Some []) st = get_messages L limit_q offset_q from_q since None st"
  proof -
    have bf: "build_filters L f since (Some []) = build_filters L f since None" for f
      by (simp add: build_filters_def)
    have cm: "count_messages L f since (Some []) st = count_messages L f since None st" for f
      by (simp add: count_messages_def bf)
    have fm: "fetch_messages L f since (Some []) lim off st = fetch_messages L f since None lim off st"
      for f lim off
      by (simp add: fetch_messages_def bf)
    show ?thesis unfolding get_messages_def Let_def cm fm ..
  qed
  from a b c show ?thesis by simp
qed

theorem C10_empty_parameters_witness:
  "list_all is_space [32, 0xA0, 0x2003] \<and>
   get_messages test_libs None None (Some [32, 0xA0, 0x2003]) None None [m1, m3] =
     Inr \<lparr>r_data = [m1, m3], r_total = 2, r_limit = 50, r_offset = 0\<rparr> \<and>
   get_messages test_libs None None (Some [32, 0xA0, 0x2003]) None None [m1, m3] =
     get_messages test_libs None None None None None [m1, m3] \<and>
   get_messages test_libs None None (Some []) (Some []) (Some []) [m1, m3] =
     get_messages test_libs None None None None None [m1, m3]"
  using C10_empty_parameters [where L = test_libs and ws = "[32, 0xA0, 0x2003]" and limit_q = None
      and offset_q = None and since = None and q = None and st = "[m1, m3]" and from_q = None]
    C10_empty_parameters [where L = test_libs and ws = "[]" and limit_q = None and offset_q = None
      and since = "Some []" and q = "Some []" and st = "[m1, m3]" and from_q = None]
    C10_empty_parameters [where L = test_libs and ws = "[]" and limit_q = None and offset_q = None
      and since = None and q = "Some []" and st = "[m1, m3]" and from_q = None]
  by (simp add: get_messages_def fetch_messages_def count_messages_def build_filters_def
      normalize_from_def sql_limit_offset_def sqlite_int_def is_space_def strip_def
      order_key_def m1_def m3_def u_def less_eq_prod_def less_prod_def)

section \<open>Order of the rows and pages\<close>

lemma sorted_order_key:
  "sorted (map order_key xs) \<Longrightarrow>
   sorted_wrt (\<lambda>a b. ts a < ts b \<or> (ts a = ts b \<and> message_id a \<le> message_id b)) xs"
proof -
  assume "sorted (map order_key xs)"
  then have "sorted_wrt (\<lambda>a b. order_key a \<le> order_key b) xs"
    by (simp add: sorted_map)
  then show ?thesis
    by (rule sorted_wrt_mono_rel[rotated]) (auto simp add: order_key_def less_eq_prod_def)
qed

lemma sorted_limit_offset:
  "sorted (map f xs) \<Longrightarrow> sorted (map f (sql_limit_offset lim off xs))"
  by (simp add: sql_limit_offset_def Let_def sorted_map sorted_wrt_take sorted_wrt_drop)

lemma fetch_messages_sorted:
  "fetch_messages L frm since q lim off st = Some rows \<Longrightarrow> sorted (map order_key rows)"
  by (auto simp add: fetch_messages_def Let_def sorted_limit_offset split: if_splits)

lemma distinct_ids_sorted_filter:
  "store_inv st \<Longrightarrow> distinct (map message_id (sort_key f (filter P st)))"
proof -
  assume "store_inv st"
  then have "distinct (map message_id (filter P st))"
    by (simp add: store_inv_def distinct_map_filter)
  moreover have "mset (map message_id (sort_key f (filter P st))) = mset (map message_id (filter P st))"
    by simp
  ultimately show ?thesis
    by (metis mset_eq_imp_distinct_iff)
qed

lemma pages_disjoint:
  assumes "distinct (map g xs)"
  shows "\<forall>a\<in>set (sql_limit_offset 1 0 xs). \<forall>b\<in>set (sql_limit_offset 1 1 xs). g a \<noteq> g b"
proof (cases xs)
  case Nil
  then show ?thesis by (simp add: sql_limit_offset_def)
next
  case (Cons x ys)
  then show ?thesis using assms
    by (cases ys) (auto simp add: sql_limit_offset_def)
qed

lemma get_messages_data:
  "get_messages L limit_q offset_q from_q since q st = Inr r \<Longrightarrow>
   \<exists>rows. select_rows (build_filters L (normalize_from L from_q) since q) st = Some rows \<and>
     r_total r = int (length rows) \<and>
     r_data r = sql_limit_offset (r_limit r) (r_offset r) (sort_key order_key rows) \<and>
     1 \<le> r_limit r \<and> r_limit r \<le> 100 \<and> 0 \<le> r_offset r \<and>
     r_limit r = (case limit_q of None \<Rightarrow> 50 | Some l \<Rightarrow> l) \<and>
     r_offset r = (case offset_q of None \<Rightarrow> 0 | Some k \<Rightarrow> k)"
  by (auto simp add: get_messages_def count_messages_def fetch_messages_def Let_def
      split: if_splits option.splits)

lemma sort_321: "sort_key order_key [m3, m2, m1] = [m1, m2, m3]"
  by (simp add: order_key_def m1_def m2_def m3_def u_def less_eq_prod_def less_prod_def)

text \<open>
  Claim C2. The rows of a response of \<open>GET /messages\<close> are in ascending order of \<open>ts\<close>,
  and rows with the same \<open>ts\<close> are in ascending order of \<open>message_id\<close>, for every table
  and every \<open>from\<close>, \<open>since\<close> and \<open>q\<close>. On a table whose ids are distinct, as the primary
  key makes them, no row of the page \<open>limit=1&offset=0\<close> has the id of a row of the page
  \<open>limit=1&offset=1\<close>.
\<close>

theorem C2_order_and_pages:
  "(get_messages L limit_q offset_q from_q since q st = Inr r \<longrightarrow>
      sorted_wrt (\<lambda>a b. ts a < ts b \<or> (ts a = ts b \<and> message_id a \<le> message_id b)) (r_data r)) \<and>
   (store_inv st \<and> get_messages L (Some 1) (Some 0) from_q since q st = Inr r0 \<and>
    get_messages L (Some 1) (Some 1) from_q since q st = Inr r1 \<longrightarrow>
      (\<forall>a\<in>set (r_data r0). \<forall>b\<in>set (r_data r1). message_id a \<noteq> message_id b))"
proof (intro conjI impI)
  assume "get_messages L limit_q offset_q from_q since q st = Inr r"
  then obtain rows where "r_data r = sql_limit_offset (r_limit r) (r_offset r) (sort_key order_key rows)"
    using get_messages_data by blast
  then have "sorted (map order_key (r_data r))"
    by (simp add: sorted_limit_offset)
  then show "sorted_wrt (\<lambda>a b. ts a < ts b \<or> (ts a = ts b \<and> message_id a \<le> message_id b)) (r_data r)"
    by (rule sorted_order_key)
next
  assume h: "store_inv st \<and> get_messages L (Some 1) (Some 0) from_q since q st = Inr r0 \<and>
    get_messages L (Some 1) (Some 1) from_q since q st = Inr r1"
  let ?cs = "build_filters L (normalize_from L from_q) since q"
  from h obtain rows0 where r0: "select_rows ?cs st = Some rows0"
      "r_data r0 = sql_limit_offset (r_limit r0) (r_offset r0) (sort_key order_key rows0)"
      "r_limit r0 = 1" "r_offset r0 = 0"
    using get_messages_data[of L "Some 1" "Some 0" from_q since q st r0] by auto
  from h obtain rows1 where r1: "select_rows ?cs st = Some rows1"
      "r_data r1 = sql_limit_offset (r_limit r1) (r_offset r1) (sort_key order_key rows1)"
      "r_limit r1 = 1" "r_offset r1 = 1"
    using get_messages_data[of L "Some 1" "Some 1" from_q since q st r1] by auto
  from r0(1) r1(1) have same: "rows1 = rows0" by simp
  from r0(1) have "rows0 = filter (\<lambda>x. where_value ?cs x = Some True) st"
    by (rule select_rows_filter)
  with h have d: "distinct (map message_id (sort_key order_key rows0))"
    by (simp add: distinct_ids_sorted_filter)
  show "\<forall>a\<in>set (r_data r0). \<forall>b\<in>set (r_data r1). message_id a \<noteq> message_id b"
    using pages_disjoint[OF d] r0 r1 same by simp
qed

theorem C2_order_and_pages_witness:
  "get_messages test_libs None None None None None [m3, m2, m1] =
     Inr \<lparr>r_data = [m1, m2, m3], r_total = 3, r_limit = 50, r_offset = 0\<rparr> \<and>
   sorted_wrt (\<lambda>a b. ts a < ts b \<or> (ts a = ts b \<and> message_id a \<le> message_id b)) [m1, m2, m3] \<and>
   store_inv [m3, m2, m1] \<and>
   get_messages test_libs (Some 1) (Some 0) None None None [m3, m2, m1] =
     Inr \<lparr>r_data = [m1], r_total = 3, r_limit = 1, r_offset = 0\<rparr> \<and>
   get_messages test_libs (Some 1) (Some 1) None None None [m3, m2, m1] =
     Inr \<lparr>r_data = [m2], r_total = 3, r_limit = 1, r_offset = 1\<rparr> \<and>
   message_id m1 \<noteq> message_id m2"
proof -
  have g: "get_messages test_libs None None None None None [m3, m2, m1] =
     Inr \<lparr>r_data = [m1, m2, m3], r_total = 3, r_limit = 50, r_offset = 0\<rparr>"
    "get_messages test_libs (Some 1) (Some 0) None None None [m3, m2, m1] =
     Inr \<lparr>r_data = [m1], r_total = 3, r_limit = 1, r_offset = 0\<rparr>"
    "get_messages test_libs (Some 1) (Some 1) None None None [m3, m2, m1] =
     Inr \<lparr>r_data = [m2], r_total = 3, r_limit = 1, r_offset = 1\<rparr>"
    by (simp_all add: get_messages_def fetch_messages_def count_messages_def build_filters_def
      normalize_from_def sql_limit_offset_def sqlite_int_def sort_321 del: sort_key_simps)
  have s: "store_inv [m3, m2, m1]"
    by (simp add: store_inv_def m1_def m2_def m3_def u_def)
  from C2_order_and_pages [where L = test_libs and limit_q = None and offset_q = None
      and from_q = None and since = None and q = None and st = "[m3, m2, m1]"
      and r = "\<lparr>r_data = [m1, m2, m3], r_total = 3, r_limit = 50, r_offset = 0\<rparr>"
      and ?r0.0 = "\<lparr>r_data = [m1], r_total = 3, r_limit = 1, r_offset = 0\<rparr>"
      and ?r1.0 = "\<lparr>r_data = [m2], r_total = 3, r_limit = 1, r_offset = 1\<rparr>"] g s
  show ?thesis by simp
qed

section \<open>The filters\<close>

text \<open>
  The clauses are combined by \<open>AND\<close>, and \<open>since\<close> is the bound \<open>ts >= since\<close>. For an
  ASCII \<open>q\<close> without \<open>%\<close>, \<open>_\<close> and NUL, of at most 49998 characters, and a text without
  NUL, the \<open>LIKE\<close> clause is the substring test on the lowered strings.
\<close>

lemma ascii_lower_idem: "ascii_lower (ascii_lower c) = ascii_lower c"
  by (simp add: ascii_lower_def)

lemma ascii_lower_eq_iff:
  "ascii_lower c = 37 \<longleftrightarrow> c = 37" "ascii_lower c = 95 \<longleftrightarrow> c = 95" "ascii_lower c = 0 \<longleftrightarrow> c = 0"
  by (auto simp add: ascii_lower_def)

lemma ascii_lower_ascii: "ascii_lower c < 128 \<longleftrightarrow> c < 128"
  by (auto simp add: ascii_lower_def)

lemma like_match_percent: "like_match [37] t"
  by (induction t) simp_all

lemma like_literal_prefix:
  "\<forall>c\<in>set p. c \<noteq> 37 \<and> c \<noteq> 95 \<Longrightarrow>
   like_match (p @ [37]) t \<longleftrightarrow> prefix (map ascii_lower p) (map ascii_lower t)"
proof (induction p arbitrary: t)
  case Nil
  then show ?case by (simp add: like_match_percent)
next
  case (Cons a p)
  then show ?case by (cases t) auto
qed

lemma like_percent_front:
  "like_match (37 # P) t \<longleftrightarrow> (\<exists>n\<le>length t. like_match P (drop n t))"
proof (induction t)
  case Nil
  then show ?case by (cases P) auto
next
  case (Cons c cs)
  have "(\<exists>n\<le>length (c # cs). like_match P (drop n (c # cs))) \<longleftrightarrow>
        like_match P (c # cs) \<or> (\<exists>n\<le>length cs. like_match P (drop n cs))"
    (is "?L \<longleftrightarrow> ?R")
  proof
    assume ?L
    then obtain n where n: "n \<le> length (c # cs)" "like_match P (drop n (c # cs))" by blast
    show ?R
    proof (cases n)
      case 0
      with n show ?thesis by simp
    next
      case (Suc k)
      with n show ?thesis by auto
    qed
  next
    assume ?R
    then show ?L
    proof
      assume "like_match P (c # cs)"
      then have "0 \<le> length (c # cs) \<and> like_match P (drop 0 (c # cs))" by simp
      then show ?L by blast
    next
      assume "\<exists>n\<le>length cs. like_match P (drop n cs)"
      then obtain n where "n \<le> length cs" "like_match P (drop n cs)" by blast
      then have "Suc n \<le> length (c # cs) \<and> like_match P (drop (Suc n) (c # cs))" by simp
      then show ?L by blast
    qed
  qed
  with Cons show ?case by simp
qed

lemma sublist_drop_prefix: "sublist xs ys \<longleftrightarrow> (\<exists>n\<le>length ys. prefix xs (drop n ys))"
proof
  assume "sublist xs ys"
  then obtain ps ss where "ys = ps @ xs @ ss" by (auto simp add: sublist_def)
  then have "length ps \<le> length ys \<and> prefix xs (drop (length ps) ys)" by simp
  then show "\<exists>n\<le>length ys. prefix xs (drop n ys)" by blast
next
  assume "\<exists>n\<le>length ys. prefix xs (drop n ys)"
  then obtain n zs where "drop n ys = xs @ zs" by (auto simp add: prefix_def)
  then have "ys = take n ys @ xs @ zs" by (metis append_take_drop_id)
  then show "sublist xs ys" unfolding sublist_def by blast
qed

lemma like_is_substring:
  assumes "\<forall>c\<in>set v. c \<noteq> 37 \<and> c \<noteq> 95"
  shows "like_match ([37] @ map ascii_lower v @ [37]) (map ascii_lower t) \<longleftrightarrow>
         sublist (map ascii_lower v) (map ascii_lower t)"
proof -
  have nw: "\<forall>c\<in>set (map ascii_lower v). c \<noteq> 37 \<and> c \<noteq> 95"
    using assms by (auto simp add: ascii_lower_eq_iff)
  have idem: "map ascii_lower (map ascii_lower s) = map ascii_lower s" for s
    by (simp add: ascii_lower_idem)
  have pre: "like_match (map ascii_lower v @ [37]) (map ascii_lower s) =
      prefix (map ascii_lower v) (map ascii_lower s)" for s
    using like_literal_prefix[OF nw, of "map ascii_lower s"] by (simp only: idem)
  have "like_match ([37] @ map ascii_lower v @ [37]) (map ascii_lower t) \<longleftrightarrow>
        (\<exists>n\<le>length (map ascii_lower t).
           like_match (map ascii_lower v @ [37]) (drop n (map ascii_lower t)))"
    using like_percent_front[of "map ascii_lower v @ [37]" "map ascii_lower t"] by simp
  also have "\<dots> \<longleftrightarrow> (\<exists>n\<le>length (map ascii_lower t).
      prefix (map ascii_lower v) (drop n (map ascii_lower t)))"
    using pre by (simp only: drop_map)
  also have "\<dots> \<longleftrightarrow> sublist (map ascii_lower v) (map ascii_lower t)"
    by (simp only: sublist_drop_prefix)
  finally show ?thesis .
qed

lemma c_string_id: "0 \<notin> set s \<Longrightarrow> c_string s = s"
  by (induction s) (auto simp add: c_string_def)

lemma since_filter:
  "where_value (build_filters L None (Some T) None) r = Some (T \<le> ts r)"
  by (cases T) (simp_all add: build_filters_def)

lemma q_filter_without_wildcards:
  assumes "\<forall>c\<in>set v. c < 128 \<and> c \<noteq> 37 \<and> c \<noteq> 95 \<and> c \<noteq> 0" and "length v + 2 \<le> 50000"
    and "0 \<notin> set (case msg_text r of None \<Rightarrow> [] | Some t \<Rightarrow> t)"
  shows "where_value (build_filters L None None (Some v)) r =
           Some (sublist (map ascii_lower v)
                   (map ascii_lower (case msg_text r of None \<Rightarrow> [] | Some t \<Rightarrow> t)))"
proof (cases "v = []")
  case True
  then show ?thesis by (simp add: build_filters_def)
next
  case False
  let ?t = "case msg_text r of None \<Rightarrow> [] | Some t \<Rightarrow> t"
  let ?pat = "[37] @ map ascii_lower v @ [37]"
  from assms(1) have asc: "list_all (\<lambda>c. c < 128) v" by (simp add: list_all_iff)
  then have lw: "lower L v = map ascii_lower v" by (simp add: lower_def)
  have pasc: "list_all (\<lambda>c. c < 128) ?pat"
    using assms(1) by (simp add: list_all_iff ascii_lower_ascii)
  have enc: "encode_utf8 ?pat = Some ?pat"
    using pasc by (rule encode_utf8_ascii)
  have z1: "0 \<notin> set ?pat" using assms(1) by (auto simp add: ascii_lower_eq_iff)
  have z2: "0 \<notin> set (map ascii_lower ?t)" using assms(3) by (auto simp add: ascii_lower_eq_iff)
  have nw: "\<forall>c\<in>set v. c \<noteq> 37 \<and> c \<noteq> 95" using assms(1) by simp
  have "sql_like ?pat (map ascii_lower ?t) = Some (like_match ?pat (map ascii_lower ?t))"
    using assms(2) by (simp add: sql_like_def enc c_string_id[OF z1] c_string_id[OF z2]
        del: append.simps)
  then have "sql_like ?pat (map ascii_lower ?t) =
      Some (sublist (map ascii_lower v) (map ascii_lower ?t))"
    by (simp only: like_is_substring[OF nw])
  with False show ?thesis
    by (simp add: build_filters_def lw u_def)
qed

lemma like_h_llo: "like_match (u ''%h_llo%'') (u ''hello world'')"
  by (simp add: u_def ascii_lower_def)

lemma not_sub_h_llo: "\<not> sublist (u ''h_llo'') (u ''hello world'')"
  by (simp add: u_def sublist_Cons_right)

lemma lower_ascii: "list_all (\<lambda>c. c < 128) s \<Longrightarrow> lower L s = map ascii_lower s"
  by (simp add: lower_def)

lemma lowered:
  "lower L (u ''h_llo'') = u ''h_llo''" "lower L (u ''Hello world'') = u ''hello world''"
  "lower L (u ''%'') = u ''%''" "lower L [] = []"
  "map ascii_lower (u ''Hello world'') = u ''hello world''"
  by (simp_all add: lower_def u_def ascii_lower_def)

lemma query_h_llo:
  "get_messages L None None None None (Some (u ''h_llo'')) [m1] =
     Inr \<lparr>r_data = [m1], r_total = 1, r_limit = 50, r_offset = 0\<rparr>"
proof -
  have p: "sql_like (u ''%'' @ u ''h_llo'' @ u ''%'') (u ''hello world'') = Some True"
    using like_h_llo by (simp add: sql_like_def c_string_def u_def utf8_char_def)
  have b: "bindable (u ''%'' @ u ''h_llo'' @ u ''%'')"
    by (simp add: bindable_ascii u_def)
  have n: "u ''h_llo'' \<noteq> []" by (simp add: u_def)
  have w: "where_value [TextLike (u ''%'' @ u ''h_llo'' @ u ''%'')] m1 = Some True"
    using p by (simp add: m1_def lowered)
  show ?thesis
    using n b w
    by (simp add: get_messages_def count_messages_def fetch_messages_def build_filters_def
        normalize_from_def sql_limit_offset_def sqlite_int_def lowered)
qed

lemma query_percent:
  "get_messages L None None None None (Some (u ''%'')) [m4] =
     Inr \<lparr>r_data = [m4], r_total = 1, r_limit = 50, r_offset = 0\<rparr>"
proof -
  have p: "sql_like (u ''%'' @ u ''%'' @ u ''%'') [] = Some True"
    by (simp add: sql_like_def c_string_def u_def utf8_char_def)
  have b: "bindable (u ''%'' @ u ''%'' @ u ''%'')"
    by (simp add: bindable_ascii u_def)
  have n: "u ''%'' \<noteq> []" by (simp add: u_def)
  have w: "where_value [TextLike (u ''%'' @ u ''%'' @ u ''%'')] m4 = Some True"
    using p by (simp add: m4_def)
  show ?thesis
    using n b w
    by (simp add: get_messages_def count_messages_def fetch_messages_def build_filters_def
        normalize_from_def sql_limit_offset_def sqlite_int_def lowered)
qed

text \<open>
  Claim C6, at inputs where it fails. With \<open>q=h_llo\<close> the row \<open>m1\<close>, whose text is
  \<open>Hello world\<close>, is returned, though \<open>h_llo\<close> is not a substring of \<open>hello world\<close>: the
  underscore of \<open>q\<close> is a wildcard of \<open>LIKE\<close>. With \<open>q=%\<close> the row \<open>m4\<close>, which has no text,
  is returned, though \<open>%\<close> is not a substring of the empty string.
\<close>

theorem C6_like_wildcards:
  "get_messages L None None None None (Some (u ''h_llo'')) [m1] =
     Inr \<lparr>r_data = [m1], r_total = 1, r_limit = 50, r_offset = 0\<rparr> \<and>
   msg_text m1 = Some (u ''Hello world'') \<and>
   \<not> sublist (lower L (u ''h_llo'')) (lower L (u ''Hello world'')) \<and>
   get_messages L None None None None (Some (u ''%'')) [m4] =
     Inr \<lparr>r_data = [m4], r_total = 1, r_limit = 50, r_offset = 0\<rparr> \<and>
   msg_text m4 = None \<and>
   \<not> sublist (lower L (u ''%'')) (lower L [])"
  using query_h_llo[of L] query_percent[of L] not_sub_h_llo
  by (simp add: lowered m1_def m4_def) (simp add: u_def)

section \<open>The total\<close>

text \<open>
  The \<open>total\<close> of a response is the number of rows of the table for which the \<open>WHERE\<close>
  clause built from the parameters is true. Every response to the same \<open>from\<close>, \<open>since\<close>
  and \<open>q\<close> on the same table carries the same total, whatever \<open>limit\<close> and \<open>offset\<close>. With
  offset 0 and a limit that is not below the total, the response holds as many rows as
  the total says.
\<close>

lemma total_and_pages:
  "get_messages L limit_q offset_q from_q since q st = Inr r \<Longrightarrow>
     r_total r = int (length (filter (\<lambda>x. where_value
         (build_filters L (normalize_from L from_q) since q) x = Some True) st)) \<and>
     (\<forall>limit_q' offset_q' r'. get_messages L limit_q' offset_q' from_q since q st = Inr r'
        \<longrightarrow> r_total r' = r_total r) \<and>
     (r_offset r = 0 \<and> r_total r \<le> r_limit r \<longrightarrow> int (length (r_data r)) = r_total r)"
proof (intro conjI allI impI)
  assume g: "get_messages L limit_q offset_q from_q since q st = Inr r"
  let ?cs = "build_filters L (normalize_from L from_q) since q"
  from g obtain rows where r: "select_rows ?cs st = Some rows" "r_total r = int (length rows)"
      "r_data r = sql_limit_offset (r_limit r) (r_offset r) (sort_key order_key rows)"
    using get_messages_data by blast
  from r(1) have f: "rows = filter (\<lambda>x. where_value ?cs x = Some True) st"
    by (rule select_rows_filter)
  with r(2) show "r_total r = int (length (filter (\<lambda>x. where_value ?cs x = Some True) st))"
    by simp
  show "r_total r' = r_total r"
    if "get_messages L limit_q' offset_q' from_q since q st = Inr r'" for limit_q' offset_q' r'
    using get_messages_data[OF that] r by auto
  show "int (length (r_data r)) = r_total r" if "r_offset r = 0 \<and> r_total r \<le> r_limit r"
    using that r by (auto simp add: sql_limit_offset_def min_def)
qed

lemma query_nul:
  "get_messages L None None None None (Some (u ''b'')) [nul_row] =
     Inr \<lparr>r_data = [], r_total = 0, r_limit = 50, r_offset = 0\<rparr>"
proof -
  have p: "sql_like (u ''%'' @ u ''b'' @ u ''%'') (map ascii_lower (u ''a'' @ [0] @ u ''b'')) = Some False"
    by (simp add: sql_like_def c_string_def u_def utf8_char_def ascii_lower_def)
  have b: "bindable (u ''%'' @ u ''b'' @ u ''%'')"
    by (simp add: bindable_ascii u_def)
  have n: "u ''b'' \<noteq> []" "lower L (u ''b'') = u ''b''"
    by (simp_all add: u_def lower_def ascii_lower_def)
  have w: "where_value [TextLike (u ''%'' @ u ''b'' @ u ''%'')] nul_row = Some False"
    using p by (simp add: nul_row_def)
  show ?thesis
    using n b w
    by (simp add: get_messages_def count_messages_def fetch_messages_def build_filters_def
        normalize_from_def sql_limit_offset_def sqlite_int_def)
qed

text \<open>
  Claim C9, at inputs where it fails. The clause for \<open>q\<close> is not the filter the claim
  counts by. With \<open>q=h_llo\<close> on the table that holds \<open>m1\<close> alone the total is 1, and the
  number of rows whose text has \<open>h_llo\<close> as a substring is 0: the underscore is a
  wildcard of \<open>LIKE\<close>. With \<open>q=b\<close> on the table that holds \<open>nul_row\<close> alone the total is 0,
  and the number of rows whose text has \<open>b\<close> as a substring is 1: \<open>LIKE\<close> reads the text up
  to the NUL.
\<close>

theorem C9_total_counts_like_matches:
  "get_messages L None None None None (Some (u ''h_llo'')) [m1] =
     Inr \<lparr>r_data = [m1], r_total = 1, r_limit = 50, r_offset = 0\<rparr> \<and>
   int (length (filter (spec_q_matches L (u ''h_llo'')) [m1])) = 0 \<and>
   get_messages L None None None None (Some (u ''b'')) [nul_row] =
     Inr \<lparr>r_data = [], r_total = 0, r_limit = 50, r_offset = 0\<rparr> \<and>
   int (length (filter (spec_q_matches L (u ''b'')) [nul_row])) = 1"
proof -
  have a: "\<not> spec_q_matches L (u ''h_llo'') m1"
    using not_sub_h_llo by (simp add: spec_q_matches_def m1_def lowered)
  have "sublist (u ''b'') (u ''a'' @ [0] @ u ''b'')"
    by (simp add: u_def sublist_Cons_right)
  then have b: "spec_q_matches L (u ''b'') nul_row"
    by (simp add: spec_q_matches_def nul_row_def lower_def u_def ascii_lower_def)
  from a b show ?thesis using query_h_llo[of L] query_nul[of L] by simp
qed

section \<open>The parameter from\<close>

lemma normalize_from_strip: "normalize_from L (Some v) = Some (spec_normalize_from L (strip v))"
proof (cases "v = []")
  case True
  then show ?thesis by (simp add: normalize_from_def spec_normalize_from_def strip_def)
next
  case False
  then show ?thesis
    by (simp add: normalize_from_def spec_normalize_from_def Let_def conj_commute)
qed

lemma build_filters_from:
  "strip v \<noteq> [] \<Longrightarrow> build_filters L (normalize_from L (Some v)) since q =
        FromEq (spec_normalize_from L (strip v)) # build_filters L None since q"
  unfolding normalize_from_strip by (simp add: build_filters_def spec_normalize_from_def)

lemma build_filters_blank:
  "strip v = [] \<Longrightarrow> build_filters L (normalize_from L (Some v)) since q =
        build_filters L None since q"
  unfolding normalize_from_strip by (simp add: build_filters_def spec_normalize_from_def)

lemma strip_id:
  "v \<noteq> [] \<Longrightarrow> \<not> is_space (hd v) \<Longrightarrow> \<not> is_space (last v) \<Longrightarrow> strip v = v"
proof -
  assume ne: "v \<noteq> []" and h1: "\<not> is_space (hd v)" and h2: "\<not> is_space (last v)"
  from ne h1 have d1: "dropWhile is_space v = v" by (cases v) simp_all
  from ne h2 have "\<not> is_space (hd (rev v))" by (simp add: hd_rev)
  with ne have d2: "dropWhile is_space (rev v) = rev v" by (cases "rev v") simp_all
  show ?thesis unfolding strip_def d1 d2 by simp
qed

text \<open>
  Claim C7, as stated, fails: the value \<open>" 919876543210"\<close>, which is what the query string
  \<open>from=+919876543210\<close> decodes to, starts with a space and not with a digit, so the
  claim leaves it unchanged, while the handler filters on \<open>"+919876543210"\<close>.
\<close>

theorem C7_counterexample:
  "normalize_from test_libs (Some (u '' 919876543210'')) \<noteq>
     Some (spec_normalize_from test_libs (u '' 919876543210'')) \<and>
   build_filters test_libs (normalize_from test_libs (Some (u '' 919876543210''))) None None =
     [FromEq (u ''+919876543210'')]"
  by (simp add: normalize_from_def spec_normalize_from_def strip_def is_space_def isdigit_def
      ascii_digit_def startswith_def build_filters_def u_def)

text \<open>
  Claim C7, amended. The handler first strips the white space around the value, as
  \<open>str.strip()\<close> does, and applies the rule to the stripped value: a plus sign is put in
  front when its first character satisfies \<open>str.isdigit()\<close> and it does not start with a
  plus sign, and in every other case the stripped value is used. When the stripped value
  is not empty it is the parameter of the clause \<open>from_msisdn = ?\<close>; when it is empty, the
  value being empty or all white space, there is no clause for \<open>from\<close>. For a value with
  no white space at either end this is the rule applied to the value itself.
\<close>

theorem C7_strip_then_plus:
  "normalize_from L (Some v) = Some (spec_normalize_from L (strip v)) \<and>
   (strip v \<noteq> [] \<longrightarrow>
      build_filters L (normalize_from L (Some v)) since q =
        FromEq (spec_normalize_from L (strip v)) # build_filters L None since q) \<and>
   (strip v = [] \<longrightarrow>
      build_filters L (normalize_from L (Some v)) since q = build_filters L None since q) \<and>
   (\<not> is_space (hd v) \<and> \<not> is_space (last v) \<longrightarrow>
      normalize_from L (Some v) = Some (spec_normalize_from L v))"
proof (intro conjI impI)
  show "normalize_from L (Some v) = Some (spec_normalize_from L (strip v))"
    by (rule normalize_from_strip)
  show "build_filters L (normalize_from L (Some v)) since q =
        FromEq (spec_normalize_from L (strip v)) # build_filters L None since q"
    if "strip v \<noteq> []"
    using that by (rule build_filters_from)
  show "build_filters L (normalize_from L (Some v)) since q = build_filters L None since q"
    if "strip v = []"
    using that by (rule build_filters_blank)
  show "normalize_from L (Some v) = Some (spec_normalize_from L v)"
    if h: "\<not> is_space (hd v) \<and> \<not> is_space (last v)"
  proof (cases "v = []")
    case True
    then show ?thesis unfolding normalize_from_strip by (simp add: strip_def)
  next
    case False
    with h have "strip v = v" by (simp add: strip_id)
    then show ?thesis unfolding normalize_from_strip by simp
  qed
qed

theorem C7_strip_then_plus_witness:
  "strip (u '' 919876543210'') = u ''919876543210'' \<and>
   normalize_from test_libs (Some (u '' 919876543210'')) = Some (u ''+919876543210'') \<and>
   build_filters test_libs (normalize_from test_libs (Some (u '' 919876543210''))) None
       (Some (u ''hello'')) =
     [FromEq (u ''+919876543210''), TextLike (u ''%hello%'')] \<and>
   strip [0xA0, 0x2003] = [] \<and>
   build_filters test_libs (normalize_from test_libs (Some [0xA0, 0x2003])) None None = [] \<and>
   normalize_from test_libs (Some (0xA0 # u ''919876543210'')) = Some (u ''+919876543210'') \<and>
   normalize_from test_libs (Some (0xB2 # u ''19'')) = Some (43 # 0xB2 # u ''19'') \<and>
   \<not> is_space (hd (u ''919876543210'')) \<and> \<not> is_space (last (u ''919876543210'')) \<and>
   normalize_from test_libs (Some (u ''919876543210'')) = Some (u ''+919876543210'') \<and>
   normalize_from test_libs (Some (u ''+919876543210'')) = Some (u ''+919876543210'') \<and>
   normalize_from test_libs (Some (u ''abc '')) = Some (u ''abc'')"
  using C7_strip_then_plus [where L = test_libs and v = "u '' 919876543210''" and since = None
      and q = "Some (u ''hello'')"]
    C7_strip_then_plus [where L = test_libs and v = "[0xA0, 0x2003]" and since = None and q = None]
    C7_strip_then_plus [where L = test_libs and v = "0xA0 # u ''919876543210''" and since = None
      and q = None]
    C7_strip_then_plus [where L = test_libs and v = "0xB2 # u ''19''" and since = None and q = None]
    C7_strip_then_plus [where L = test_libs and v = "u ''919876543210''" and since = None and q = None]
    C7_strip_then_plus [where L = test_libs and v = "u ''+919876543210''" and since = None
      and q = None]
    C7_strip_then_plus [where L = test_libs and v = "u ''abc ''" and since = None and q = None]
  by (simp add: spec_normalize_from_def strip_def is_space_def isdigit_def ascii_digit_def
      startswith_def build_filters_def lower_def ascii_lower_def test_libs_def u_def)

section \<open>Validation of the payload\<close>

text \<open>
  What the regular expression accepts: the strings of the E.164 pattern, and those
  strings followed by one newline. An error of the handler leaves the table as it was.
\<close>

lemma not_digit_nl: "\<not> re_digit L 10"
  by (simp add: re_digit_def ascii_digit_def)

lemma E164_match_iff:
  "E164_match L s \<longleftrightarrow> e164_spec L s \<or> (\<exists>s'. s = s' @ [10] \<and> e164_spec L s')"
proof
  assume m: "E164_match L s"
  then obtain d ds where s: "s = 43 # d # ds" and d: "49 \<le> d" "d \<le> 57"
    and len: "7 \<le> length (takeWhile (re_digit L) ds)" "length (takeWhile (re_digit L) ds) \<le> 14"
    and rest: "dropWhile (re_digit L) ds = [] \<or> dropWhile (re_digit L) ds = [10]"
    by (auto simp add: E164_match_def Let_def split: list.splits)
  have dd: "re_digit L d" using d by (simp add: re_digit_def ascii_digit_def)
  have digs: "list_all (re_digit L) (takeWhile (re_digit L) ds)"
    by (metis list_all_iff set_takeWhileD)
  have split: "ds = takeWhile (re_digit L) ds @ dropWhile (re_digit L) ds" by simp
  from rest show "e164_spec L s \<or> (\<exists>s'. s = s' @ [10] \<and> e164_spec L s')"
  proof
    assume "dropWhile (re_digit L) ds = []"
    with split have "ds = takeWhile (re_digit L) ds" by simp
    with s d dd len digs have "e164_spec L s" by (simp add: e164_spec_def)
    then show ?thesis ..
  next
    assume "dropWhile (re_digit L) ds = [10]"
    with split have e: "ds = takeWhile (re_digit L) ds @ [10]" by simp
    with s have "s = (43 # d # takeWhile (re_digit L) ds) @ [10]" by simp
    moreover have "e164_spec L (43 # d # takeWhile (re_digit L) ds)"
      using d dd len digs by (simp add: e164_spec_def)
    ultimately show ?thesis by blast
  qed
next
  assume "e164_spec L s \<or> (\<exists>s'. s = s' @ [10] \<and> e164_spec L s')"
  then show "E164_match L s"
  proof
    assume e: "e164_spec L s"
    then obtain d ds where s: "s = 43 # d # ds" and d: "49 \<le> d" "d \<le> 57"
      and len: "7 \<le> length ds" "length ds \<le> 14" and all: "list_all (re_digit L) ds"
      by (cases s; cases "tl s") (auto simp add: e164_spec_def)
    from all have tw: "takeWhile (re_digit L) ds = ds" "dropWhile (re_digit L) ds = []"
      by (simp_all add: list_all_iff)
    show ?thesis unfolding s E164_match_def Let_def using d len all
      by (simp add: tw list_all_iff)
  next
    assume "\<exists>s'. s = s' @ [10] \<and> e164_spec L s'"
    then obtain s' where s': "s = s' @ [10]" and e: "e164_spec L s'" by blast
    from e obtain d ds where s: "s' = 43 # d # ds" and d: "49 \<le> d" "d \<le> 57"
      and len: "7 \<le> length ds" "length ds \<le> 14" and all: "list_all (re_digit L) ds"
      by (cases s'; cases "tl s'") (auto simp add: e164_spec_def)
    from all have tw: "takeWhile (re_digit L) (ds @ [10]) = ds"
        "dropWhile (re_digit L) (ds @ [10]) = [10]"
      by (simp_all add: list_all_iff takeWhile_append2 dropWhile_append2 not_digit_nl)
    have "s = 43 # d # (ds @ [10])" using s s' by simp
    then show ?thesis unfolding E164_match_def Let_def using d len all
      by (simp add: tw list_all_iff)
  qed
qed

lemma webhook_error_keeps_store:
  "fst (webhook L secret now req st) = Inl e \<Longrightarrow> snd (snd (webhook L secret now req st)) = st"
  by (auto simp add: webhook_def insert_message_def Let_def
      split: if_splits option.splits json_doc.splits sum.splits prod.splits)

lemma newline_message:
  "constr_str_ok L (u ''m5'') \<Longrightarrow>
   WebhookMessage L newline_payload =
     Inr \<lparr>wm_message_id = u ''m5'', wm_from = u ''+919876543210'' @ [10],
          wm_to = u ''+14155550100'', wm_ts = u ''2025-01-15T10:00:00Z'', wm_text = None\<rparr>"
  by (simp add: WebhookMessage_def newline_payload_def) (simp add: u_def)

lemma newline_match: "E164_match L (u ''+919876543210'' @ [10])"
  by (simp add: E164_match_def u_def re_digit_def ascii_digit_def)

lemma newline_not_spec: "\<not> e164_spec L (u ''+919876543210'' @ [10])"
  by (simp add: e164_spec_def u_def re_digit_def ascii_digit_def)

text \<open>
  Claim C5, at an input where it fails. The payload \<open>newline_payload\<close> has the \<open>from\<close>
  value \<open>"+919876543210\n"\<close>, which is not a plus sign followed by 8 to 15 digits. Sent
  with a valid signature, and \<open>datetime.fromisoformat\<close> accepting the timestamp, it passes
  the validation: the handler answers \<open>{"status": "ok"}\<close> and the row is stored with the
  newline in \<open>from_msisdn\<close>.
\<close>

theorem C5_trailing_newline_accepted:
  "secret \<noteq> [] \<and> encode_utf8 secret = Some key \<and>
   x_signature req = Some (hexdigest (hmac_sha256 key (body req))) \<and>
   json_loads L (body req) = Some (JObject newline_payload) \<and>
   constr_str_ok L (u ''m5'') \<and>
   fromisoformat_ok L (u ''2025-01-15T10:00:00+00:00'') \<and>
   bindable now \<and>
   \<not> row_too_big L \<lparr>message_id = u ''m5'', from_msisdn = u ''+919876543210'' @ [10],
          to_msisdn = u ''+14155550100'', ts = u ''2025-01-15T10:00:00Z'', msg_text = None,
          created_at = now\<rparr> \<longrightarrow>
     webhook L secret now req [] =
       (Inr [(''status'', ''ok'')], ''created'',
        [\<lparr>message_id = u ''m5'', from_msisdn = u ''+919876543210'' @ [10],
          to_msisdn = u ''+14155550100'', ts = u ''2025-01-15T10:00:00Z'', msg_text = None,
          created_at = now\<rparr>]) \<and>
     \<not> e164_spec L (u ''+919876543210'' @ [10])"
proof (intro impI conjI)
  assume h: "secret \<noteq> [] \<and> encode_utf8 secret = Some key \<and>
   x_signature req = Some (hexdigest (hmac_sha256 key (body req))) \<and>
   json_loads L (body req) = Some (JObject newline_payload) \<and>
   constr_str_ok L (u ''m5'') \<and>
   fromisoformat_ok L (u ''2025-01-15T10:00:00+00:00'') \<and>
   bindable now \<and>
   \<not> row_too_big L \<lparr>message_id = u ''m5'', from_msisdn = u ''+919876543210'' @ [10],
          to_msisdn = u ''+14155550100'', ts = u ''2025-01-15T10:00:00Z'', msg_text = None,
          created_at = now\<rparr>"
  let ?m = "\<lparr>wm_message_id = u ''m5'', wm_from = u ''+919876543210'' @ [10],
          wm_to = u ''+14155550100'', wm_ts = u ''2025-01-15T10:00:00Z'', wm_text = None\<rparr>"
  have to_ok: "E164_match L (u ''+14155550100'')"
    by (simp add: E164_match_def u_def re_digit_def ascii_digit_def)
  have ts_ok: "endswith (u ''2025-01-15T10:00:00Z'') (u ''Z'')"
      "replace_char 90 (u ''+00:00'') (u ''2025-01-15T10:00:00Z'') = u ''2025-01-15T10:00:00+00:00''"
    by (simp_all add: endswith_def replace_char_def u_def)
  have v: "validate_fields L ?m = Inr ()"
    using h newline_match to_ok ts_ok by (simp add: validate_fields_def)
  have b: "bindable (u ''m5'')" "bindable (u ''+919876543210'' @ [10])"
    "bindable (u ''+14155550100'')" "bindable (u ''2025-01-15T10:00:00Z'')"
    by (simp_all add: bindable_ascii u_def)
  have i: "insert_message L now (u ''m5'') (u ''+919876543210'' @ [10]) (u ''+14155550100'')
      (u ''2025-01-15T10:00:00Z'') None [] =
      (Some (True, False), [\<lparr>message_id = u ''m5'', from_msisdn = u ''+919876543210'' @ [10],
          to_msisdn = u ''+14155550100'', ts = u ''2025-01-15T10:00:00Z'', msg_text = None,
          created_at = now\<rparr>])"
    using h b by (simp add: insert_message_def)
  show "webhook L secret now req [] =
       (Inr [(''status'', ''ok'')], ''created'',
        [\<lparr>message_id = u ''m5'', from_msisdn = u ''+919876543210'' @ [10],
          to_msisdn = u ''+14155550100'', ts = u ''2025-01-15T10:00:00Z'', msg_text = None,
          created_at = now\<rparr>])"
    using h newline_message[of L] v i
    by (simp add: webhook_def compute_signature_def hexdigest_hmac_nonempty)
  show "\<not> e164_spec L (u ''+919876543210'' @ [10])" by (rule newline_not_spec)
qed

theorem C5_trailing_newline_accepted_witness:
  "webhook test_libs test_secret (u ''2025-01-16T08:00:00Z'')
       \<lparr>x_signature = compute_signature test_secret newline_body, body = newline_body\<rparr> [] =
     (Inr [(''status'', ''ok'')], ''created'',
        [\<lparr>message_id = u ''m5'', from_msisdn = u ''+919876543210'' @ [10],
          to_msisdn = u ''+14155550100'', ts = u ''2025-01-15T10:00:00Z'', msg_text = None,
          created_at = u ''2025-01-16T08:00:00Z''\<rparr>]) \<and>
   \<not> e164_spec test_libs (u ''+919876543210'' @ [10])"
proof -
  have j: "json_loads test_libs newline_body = Some (JObject newline_payload)"
    by (simp add: test_libs_def newline_body_def test_body_def u_def)
  have c: "constr_str_ok test_libs (u ''m5'')"
    by (simp add: test_libs_def u_def utf8_char_def)
  have f: "fromisoformat_ok test_libs (u ''2025-01-15T10:00:00+00:00'')"
    by (simp add: test_libs_def iso_layout_def iso_number_def ascii_digit_def u_def)
  have b: "bindable (u ''2025-01-16T08:00:00Z'')"
    by (simp add: bindable_ascii u_def)
  have r: "\<not> row_too_big test_libs x" for x
    by (simp add: test_libs_def)
  have ne: "test_secret \<noteq> []" by (simp add: test_secret_def u_def)
  have sg: "compute_signature test_secret newline_body =
      Some (hexdigest (hmac_sha256 test_secret newline_body))"
    by (simp add: compute_signature_def encode_test_secret)
  show ?thesis
    using C5_trailing_newline_accepted [where L = test_libs and secret = test_secret
        and key = test_secret and now = "u ''2025-01-16T08:00:00Z''"
        and req = "\<lparr>x_signature = compute_signature test_secret newline_body, body = newline_body\<rparr>"]
      j c f b r ne sg encode_test_secret
    by simp
qed

section \<open>Statistics\<close>

lemma top_senders_bounds:
  "top_senders_query st rows \<Longrightarrow>
     length rows \<le> 10 \<and> sorted_wrt (\<lambda>a b. snd a \<ge> snd b) rows \<and>
     set rows \<subseteq> set (sender_groups st)"
proof -
  assume "top_senders_query st rows"
  then obtain gs where g: "mset gs = mset (sender_groups st)"
      "sorted_wrt (\<lambda>a b. snd a \<ge> snd b) gs" "rows = take 10 gs"
    by (auto simp add: top_senders_query_def)
  from g(1) have "set gs = set (sender_groups st)" by (rule mset_eq_setD)
  with g(2,3) show ?thesis
    by (auto simp add: sorted_wrt_take dest: in_set_takeD)
qed

lemma groups13:
  "sender_groups [m1, m3] = [(u ''+919876543210'', 1), (u ''+918888888888'', 1)]"
  by (simp add: sender_groups_def m1_def m3_def u_def)

text \<open>
  Claim C3, at an input where it fails. The table holds one message of each of two
  senders. The query admits the result that lists \<open>+919876543210\<close> before
  \<open>+918888888888\<close>, two senders with equal counts in descending order of \<open>from_msisdn\<close>, as
  well as the result in ascending order: nothing in \<open>ORDER BY cnt DESC\<close> decides between
  them.
\<close>

theorem C3_tie_order_open:
  "get_stats [m1, m3]
     \<lparr>total_messages = 2, senders_count = 2,
      messages_per_sender = [(u ''+919876543210'', 1), (u ''+918888888888'', 1)],
      first_message_ts = Some (u ''2025-01-15T10:00:00Z''),
      last_message_ts = Some (u ''2025-01-15T10:02:00Z'')\<rparr> \<and>
   get_stats [m1, m3]
     \<lparr>total_messages = 2, senders_count = 2,
      messages_per_sender = [(u ''+918888888888'', 1), (u ''+919876543210'', 1)],
      first_message_ts = Some (u ''2025-01-15T10:00:00Z''),
      last_message_ts = Some (u ''2025-01-15T10:02:00Z'')\<rparr> \<and>
   u ''+918888888888'' < u ''+919876543210''"
proof (intro conjI)
  have a: "top_senders_query [m1, m3] [(u ''+919876543210'', 1), (u ''+918888888888'', 1)]"
    unfolding top_senders_query_def groups13
    by (rule exI[of _ "[(u ''+919876543210'', 1), (u ''+918888888888'', 1)]"]) simp
  have b: "top_senders_query [m1, m3] [(u ''+918888888888'', 1), (u ''+919876543210'', 1)]"
    unfolding top_senders_query_def groups13
    by (rule exI[of _ "[(u ''+918888888888'', 1), (u ''+919876543210'', 1)]"]) simp
  have c: "length (remdups (map from_msisdn [m1, m3])) = 2"
    by (simp add: m1_def m3_def u_def)
  show "get_stats [m1, m3]
     \<lparr>total_messages = 2, senders_count = 2,
      messages_per_sender = [(u ''+919876543210'', 1), (u ''+918888888888'', 1)],
      first_message_ts = Some (u ''2025-01-15T10:00:00Z''),
      last_message_ts = Some (u ''2025-01-15T10:02:00Z'')\<rparr>"
    unfolding get_stats_def sort_m1_m3 using a c by (simp add: m1_def m3_def)
  show "get_stats [m1, m3]
     \<lparr>total_messages = 2, senders_count = 2,
      messages_per_sender = [(u ''+918888888888'', 1), (u ''+919876543210'', 1)],
      first_message_ts = Some (u ''2025-01-15T10:00:00Z''),
      last_message_ts = Some (u ''2025-01-15T10:02:00Z'')\<rparr>"
    unfolding get_stats_def sort_m1_m3 using b c by (simp add: m1_def m3_def)
  show "u ''+918888888888'' < u ''+919876543210''" by (simp add: u_def)
qed

end
